theory Spec2Isabelle
  imports Main "HOL-Library.Sublist"
begin

section \<open>The weather tool of agent.py\<close>

text \<open>
  The module configures agents for a hosted language-model runtime; its one function with
  control flow is \<open>get_weather\<close>, which asks a geocoding service for the coordinates of
  a city, asks a forecast service for the current weather there, and returns a dict with a
  report or an error message. This theory embeds that function. The two services and the
  \<open>requests\<close> library are outside the module: whatever \<open>requests.get\<close> does for a URL
  (raise, or hand back a response) is an input of the model.

  Python text is held as its UTF-8 bytes in a \<open>string\<close>, so the Japanese literals of the
  source appear as byte lists; concatenation and containment of text are the same on
  bytes as on code points.
\<close>

subsection \<open>JSON values as Python objects\<close>

text \<open>
  What \<open>Response.json()\<close> returns: \<open>None\<close>, \<open>bool\<close>, \<open>int\<close>, \<open>float\<close>, \<open>str\<close>,
  \<open>list\<close> and \<open>dict\<close> with \<open>str\<close> keys (the items in the dict's order, keys
  distinct). The function never computes with a float: it formats it and uses it as a
  dict key, so a float is carried as the text \<open>repr\<close> gives for it
  (\<open>21.5\<close>, \<open>1.0\<close>, \<open>-0.0\<close>, \<open>1e+16\<close>, \<open>nan\<close>).
\<close>

datatype json =
    JNull
  | JBool bool
  | JInt int
  | JFloat string
  | JStr string
  | JArr "json list"
  | JObj "(string \<times> json) list"

text \<open>
  The exceptions that can reach the function, each with the text \<open>str(e)\<close> gives.
  \<open>RequestException\<close> stands for \<open>requests.RequestException\<close> and its subclasses, of
  which the kind names the ones the transport raises; the other constructors are
  subclasses of \<open>Exception\<close> outside that hierarchy. The interpreter's own errors
  carry the wording of CPython 3.10; no property below depends on that wording.
\<close>

datatype request_error = Timeout | ConnectionError | HTTPError | OtherRequestError

datatype exn =
    RequestException request_error string
  | AttributeError string
  | TypeError string
  | KeyError string
  | IndexError string
  | OtherException string

fun str_exn :: "exn \<Rightarrow> string" where
  "str_exn (RequestException k m) = m"
| "str_exn (AttributeError m) = m"
| "str_exn (TypeError m) = m"
| "str_exn (KeyError m) = m"
| "str_exn (IndexError m) = m"
| "str_exn (OtherException m) = m"

fun is_RequestException :: "exn \<Rightarrow> bool" where
  "is_RequestException (RequestException k m) = True"
| "is_RequestException e = False"

text \<open>
  A \<open>requests.Response\<close> as the function reads it: \<open>ok\<close>, which is false exactly
  when \<open>raise_for_status()\<close> raises \<open>HTTPError\<close> (the text of that error is
  \<open>http_error\<close>), and the outcome of \<open>json()\<close>, which raises when the body is not JSON.
\<close>

record response =
  ok :: bool
  http_error :: string
  json_result :: "exn + json"

text \<open>
  What the function meets at run time: \<open>requests_get url\<close> is the outcome of
  \<open>requests.get(url, timeout=5)\<close>, and \<open>str_repr\<close> is the interpreter's \<open>repr\<close> of a
  \<open>str\<close>, whose quoting and escaping follow the interpreter's Unicode tables.
\<close>

record runtime =
  requests_get :: "string \<Rightarrow> exn + response"
  str_repr :: "string \<Rightarrow> string"

type_synonym result = "(string \<times> string) list"

definition and_then :: "exn + 'a \<Rightarrow> ('a \<Rightarrow> exn + 'b) \<Rightarrow> exn + 'b" where
  "and_then r f = (case r of Inl e \<Rightarrow> Inl e | Inr v \<Rightarrow> f v)"

subsection \<open>The Python operations the function applies to JSON values\<close>

fun type_name :: "json \<Rightarrow> string" where
  "type_name JNull = ''NoneType''"
| "type_name (JBool b) = ''bool''"
| "type_name (JInt i) = ''int''"
| "type_name (JFloat r) = ''float''"
| "type_name (JStr s) = ''str''"
| "type_name (JArr xs) = ''list''"
| "type_name (JObj kv) = ''dict''"

definition quoted :: "string \<Rightarrow> string" where
  "quoted s = [CHR 0x27] @ s @ [CHR 0x27]"

text \<open>Truth value of an object, as \<open>not x\<close> tests it.\<close>

fun truthy :: "json \<Rightarrow> bool" where
  "truthy JNull = False"
| "truthy (JBool b) = b"
| "truthy (JInt i) = (i \<noteq> 0)"
| "truthy (JFloat r) = (r \<noteq> ''0.0'' \<and> r \<noteq> ''-0.0'')"
| "truthy (JStr s) = (s \<noteq> [])"
| "truthy (JArr xs) = (xs \<noteq> [])"
| "truthy (JObj kv) = (kv \<noteq> [])"

text \<open>\<open>x.get(key, default)\<close>: only a dict has the method.\<close>

fun dict_get :: "json \<Rightarrow> string \<Rightarrow> json \<Rightarrow> exn + json" where
  "dict_get (JObj kv) key dflt = Inr (case map_of kv key of Some v \<Rightarrow> v | None \<Rightarrow> dflt)"
| "dict_get x key dflt =
     Inl (AttributeError (quoted (type_name x) @ '' object has no attribute '' @ quoted ''get''))"

text \<open>\<open>x[key]\<close> with a \<open>str\<close> key.\<close>

fun subscript_key :: "json \<Rightarrow> string \<Rightarrow> exn + json" where
  "subscript_key (JObj kv) key =
     (case map_of kv key of Some v \<Rightarrow> Inr v | None \<Rightarrow> Inl (KeyError (quoted key)))"
| "subscript_key (JArr xs) key =
     Inl (TypeError ''list indices must be integers or slices, not str'')"
| "subscript_key (JStr s) key = Inl (TypeError ''string indices must be integers'')"
| "subscript_key x key = Inl (TypeError (quoted (type_name x) @ '' object is not subscriptable''))"

text \<open>\<open>x[0]\<close>. The first character of a \<open>str\<close> is its first UTF-8 sequence.\<close>

definition first_char :: "string \<Rightarrow> string" where
  "first_char s = take 1 s @ takeWhile (\<lambda>c. (of_char c :: nat) div 64 = 2) (drop 1 s)"

fun subscript_zero :: "json \<Rightarrow> exn + json" where
  "subscript_zero (JArr []) = Inl (IndexError ''list index out of range'')"
| "subscript_zero (JArr (x # xs)) = Inr x"
| "subscript_zero (JStr []) = Inl (IndexError ''string index out of range'')"
| "subscript_zero (JStr s) = Inr (JStr (first_char s))"
| "subscript_zero (JObj kv) = Inl (KeyError ''0'')"
| "subscript_zero x = Inl (TypeError (quoted (type_name x) @ '' object is not subscriptable''))"

text \<open>\<open>str\<close> of an \<open>int\<close>: decimal digits, with a sign when negative.\<close>

fun digits10 :: "nat \<Rightarrow> string" where
  "digits10 n =
     (if n < 10 then [''0123456789'' ! n]
      else digits10 (n div 10) @ [''0123456789'' ! (n mod 10)])"

declare digits10.simps [simp del]

definition str_int :: "int \<Rightarrow> string" where
  "str_int i = (if i < 0 then CHR ''-'' # digits10 (nat (- i)) else digits10 (nat i))"

definition join :: "string \<Rightarrow> string list \<Rightarrow> string" where
  "join sep xs = (case xs of [] \<Rightarrow> [] | y # ys \<Rightarrow> y @ concat (map (\<lambda>z. sep @ z) ys))"

text \<open>
  \<open>repr\<close> and \<open>str\<close> of a JSON value; an f-string field \<open>{x}\<close> is \<open>str(x)\<close>. They differ
  on a \<open>str\<close> alone, and the elements of a list or dict are shown with \<open>repr\<close>.
\<close>

primrec py_repr :: "(string \<Rightarrow> string) \<Rightarrow> json \<Rightarrow> string" where
  "py_repr q JNull = ''None''"
| "py_repr q (JBool b) = (if b then ''True'' else ''False'')"
| "py_repr q (JInt i) = str_int i"
| "py_repr q (JFloat r) = r"
| "py_repr q (JStr s) = q s"
| "py_repr q (JArr xs) = ''['' @ join '', '' (map (py_repr q) xs) @ '']''"
| "py_repr q (JObj kv) =
     ''{'' @ join '', '' (map (\<lambda>p. q (fst p) @ '': '' @ snd p) (map (map_prod id (py_repr q)) kv))
       @ ''}''"

definition py_str :: "(string \<Rightarrow> string) \<Rightarrow> json \<Rightarrow> string" where
  "py_str q x = (case x of JStr s \<Rightarrow> s | _ \<Rightarrow> py_repr q x)"

subsection \<open>The classification table\<close>

text \<open>The dict literal \<open>code_to_weather\<close> of the source, entry by entry.\<close>

definition code_to_weather :: "(int \<times> string) list" where
  "code_to_weather =
    [
     (0, [CHR 0xE5, CHR 0xBF, CHR 0xAB, CHR 0xE6, CHR 0x99, CHR 0xB4]),
     (1, [CHR 0xE6, CHR 0x99, CHR 0xB4, CHR 0xE3, CHR 0x82, CHR 0x8C]),
     (2, [CHR 0xE4, CHR 0xB8, CHR 0xBB, CHR 0xE3, CHR 0x81, CHR 0xAB, CHR 0xE6, CHR 0x99,
       CHR 0xB4, CHR 0xE3, CHR 0x82, CHR 0x8C]),
     (3, [CHR 0xE6, CHR 0x9B, CHR 0x87, CHR 0xE3, CHR 0x82, CHR 0x8A]),
     (4, [CHR 0xE8, CHR 0x96, CHR 0x84, CHR 0xE6, CHR 0x9B, CHR 0x87, CHR 0xE3, CHR 0x82,
       CHR 0x8A]),
     (5, [CHR 0xE9, CHR 0x9C, CHR 0x9E, CHR 0xE3, CHR 0x81, CHR 0xBF, CHR 0xE3, CHR 0x81,
       CHR 0x8C, CHR 0xE3, CHR 0x81, CHR 0x8B, CHR 0xE3, CHR 0x81, CHR 0xA3, CHR 0xE3,
       CHR 0x81, CHR 0x9F, CHR 0xE6, CHR 0x9B, CHR 0x87, CHR 0xE3, CHR 0x82, CHR 0x8A]),
     (6, [CHR 0xE6, CHR 0x9B, CHR 0x87, CHR 0xE3, CHR 0x82, CHR 0x8A]),
     (7, [CHR 0xE5, CHR 0x8E, CHR 0x9A, CHR 0xE3, CHR 0x81, CHR 0x84, CHR 0xE6, CHR 0x9B,
       CHR 0x87, CHR 0xE3, CHR 0x82, CHR 0x8A]),
     (8, [CHR 0xE9, CHR 0x9B, CHR 0xA8, CHR 0xE9, CHR 0x9B, CHR 0xB2]),
     (9, [CHR 0xE6, CHR 0x9B, CHR 0x87, CHR 0xE3, CHR 0x82, CHR 0x8A, CHR 0xEF, CHR 0xBC,
       CHR 0x88, CHR 0xE9, CHR 0x9B, CHR 0xB7, CHR 0xE9, CHR 0x9B, CHR 0xB2, CHR 0xEF,
       CHR 0xBC, CHR 0x89]),
     (10, [CHR 0xE9, CHR 0x9C, CHR 0x9E]),
     (11, [CHR 0xE8, CHR 0x96, CHR 0x84, CHR 0xE9, CHR 0x9C, CHR 0xA7]),
     (12, [CHR 0xE9, CHR 0x9C, CHR 0xA7]),
     (13, [CHR 0xE9, CHR 0x9B, CHR 0xB7, CHR 0xEF, CHR 0xBC, CHR 0x88, CHR 0xE9, CHR 0x9B,
       CHR 0xA8, CHR 0xE3, CHR 0x81, CHR 0xAA, CHR 0xE3, CHR 0x81, CHR 0x97, CHR 0xEF,
       CHR 0xBC, CHR 0x89]),
     (14, [CHR 0xE5, CHR 0xBC, CHR 0xB1, CHR 0xE3, CHR 0x81, CHR 0x84, CHR 0xE9, CHR 0x99,
       CHR 0x8D, CHR 0xE6, CHR 0xB0, CHR 0xB4]),
     (15, [CHR 0xE9, CHR 0x81, CHR 0xA0, CHR 0xE6, CHR 0x96, CHR 0xB9, CHR 0xE3, CHR 0x81,
       CHR 0xA7, CHR 0xE9, CHR 0x99, CHR 0x8D, CHR 0xE6, CHR 0xB0, CHR 0xB4]),
     (18, [CHR 0xE7, CHR 0xAA, CHR 0x81, CHR 0xE9, CHR 0xA2, CHR 0xA8]),
     (19, [CHR 0xE7, CHR 0xAB, CHR 0x9C, CHR 0xE5, CHR 0xB7, CHR 0xBB]),
     (20, [CHR 0xE9, CHR 0x9C, CHR 0xA7, CHR 0xE9, CHR 0x9B, CHR 0xA8, CHR 0xEF, CHR 0xBC,
       CHR 0x88, CHR 0xE9, CHR 0x81, CHR 0x8E, CHR 0xE5, CHR 0x8E, CHR 0xBB, CHR ''1'',
       CHR 0xE6, CHR 0x99, CHR 0x82, CHR 0xE9, CHR 0x96, CHR 0x93, CHR 0xEF, CHR 0xBC,
       CHR 0x89]),
     (21, [CHR 0xE9, CHR 0x9B, CHR 0xA8, CHR 0xEF, CHR 0xBC, CHR 0x88, CHR 0xE9, CHR 0x81,
       CHR 0x8E, CHR 0xE5, CHR 0x8E, CHR 0xBB, CHR ''1'', CHR 0xE6, CHR 0x99, CHR 0x82,
       CHR 0xE9, CHR 0x96, CHR 0x93, CHR 0xEF, CHR 0xBC, CHR 0x89]),
     (22, [CHR 0xE9, CHR 0x9B, CHR 0xAA, CHR 0xEF, CHR 0xBC, CHR 0x88, CHR 0xE9, CHR 0x81,
       CHR 0x8E, CHR 0xE5, CHR 0x8E, CHR 0xBB, CHR ''1'', CHR 0xE6, CHR 0x99, CHR 0x82,
       CHR 0xE9, CHR 0x96, CHR 0x93, CHR 0xEF, CHR 0xBC, CHR 0x89]),
     (25, [CHR 0xE3, CHR 0x81, CHR 0xAB, CHR 0xE3, CHR 0x82, CHR 0x8F, CHR 0xE3, CHR 0x81,
       CHR 0x8B, CHR 0xE9, CHR 0x9B, CHR 0xA8, CHR 0xEF, CHR 0xBC, CHR 0x88, CHR 0xE9,
       CHR 0x81, CHR 0x8E, CHR 0xE5, CHR 0x8E, CHR 0xBB, CHR ''1'', CHR 0xE6, CHR 0x99,
       CHR 0x82, CHR 0xE9, CHR 0x96, CHR 0x93, CHR 0xEF, CHR 0xBC, CHR 0x89]),
     (26, [CHR 0xE3, CHR 0x81, CHR 0xAB, CHR 0xE3, CHR 0x82, CHR 0x8F, CHR 0xE3, CHR 0x81,
       CHR 0x8B, CHR 0xE9, CHR 0x9B, CHR 0xAA, CHR 0xEF, CHR 0xBC, CHR 0x88, CHR 0xE9,
       CHR 0x81, CHR 0x8E, CHR 0xE5, CHR 0x8E, CHR 0xBB, CHR ''1'', CHR 0xE6, CHR 0x99,
       CHR 0x82, CHR 0xE9, CHR 0x96, CHR 0x93, CHR 0xEF, CHR 0xBC, CHR 0x89]),
     (27, [CHR 0xE3, CHR 0x81, CHR 0xB2, CHR 0xE3, CHR 0x82, CHR 0x87, CHR 0xE3, CHR 0x81,
       CHR 0x86, CHR 0xEF, CHR 0xBC, CHR 0x88, CHR 0xE9, CHR 0x81, CHR 0x8E, CHR 0xE5,
       CHR 0x8E, CHR 0xBB, CHR ''1'', CHR 0xE6, CHR 0x99, CHR 0x82, CHR 0xE9, CHR 0x96,
       CHR 0x93, CHR 0xEF, CHR 0xBC, CHR 0x89]),
     (29, [CHR 0xE9, CHR 0x9B, CHR 0xB7, CHR 0xE9, CHR 0x9B, CHR 0xA8, CHR 0xEF, CHR 0xBC,
       CHR 0x88, CHR 0xE9, CHR 0x81, CHR 0x8E, CHR 0xE5, CHR 0x8E, CHR 0xBB, CHR ''1'',
       CHR 0xE6, CHR 0x99, CHR 0x82, CHR 0xE9, CHR 0x96, CHR 0x93, CHR 0xEF, CHR 0xBC,
       CHR 0x89]),
     (30, [CHR 0xE7, CHR 0xA0, CHR 0x82, CHR 0xE5, CHR 0xB5, CHR 0x90]),
     (31, [CHR 0xE7, CHR 0xA0, CHR 0x82, CHR 0xE5, CHR 0xB5, CHR 0x90]),
     (33, [CHR 0xE8, CHR 0xBB, CHR 0xBD, CHR 0xE3, CHR 0x81, CHR 0x84, CHR 0xE7, CHR 0xA0,
       CHR 0x82, CHR 0xE5, CHR 0xA1, CHR 0xB5]),
     (34, [CHR 0xE7, CHR 0xA0, CHR 0x82, CHR 0xE5, CHR 0xA1, CHR 0xB5]),
     (35, [CHR 0xE5, CHR 0xBC, CHR 0xB7, CHR 0xE3, CHR 0x81, CHR 0x84, CHR 0xE7, CHR 0xA0,
       CHR 0x82, CHR 0xE5, CHR 0xA1, CHR 0xB5]),
     (40, [CHR 0xE9, CHR 0x81, CHR 0xA0, CHR 0xE6, CHR 0x96, CHR 0xB9, CHR 0xE3, CHR 0x81,
       CHR 0xAE, CHR 0xE9, CHR 0x9C, CHR 0xA7]),
     (41, [CHR 0xE9, CHR 0x9C, CHR 0xA7, CHR 0xEF, CHR 0xBC, CHR 0x88, CHR 0xE3, CHR 0x83,
       CHR 0x91, CHR 0xE3, CHR 0x83, CHR 0x83, CHR 0xE3, CHR 0x83, CHR 0x81, CHR 0xE7,
       CHR 0x8A, CHR 0xB6, CHR 0xEF, CHR 0xBC, CHR 0x89]),
     (42, [CHR 0xE9, CHR 0x9C, CHR 0xA7, CHR 0xEF, CHR 0xBC, CHR 0x88, CHR 0xE8, CHR 0x96,
       CHR 0x84, CHR 0xE3, CHR 0x81, CHR 0x8F, CHR 0xE3, CHR 0x81, CHR 0xAA, CHR 0xE3,
       CHR 0x82, CHR 0x8B, CHR 0xEF, CHR 0xBC, CHR 0x89]),
     (43, [CHR 0xE9, CHR 0x9C, CHR 0xA7, CHR 0xEF, CHR 0xBC, CHR 0x88, CHR 0xE6, CHR 0xBF,
       CHR 0x83, CHR 0xE3, CHR 0x81, CHR 0x8F, CHR 0xE3, CHR 0x81, CHR 0xAA, CHR 0xE3,
       CHR 0x82, CHR 0x8B, CHR 0xEF, CHR 0xBC, CHR 0x89]),
     (45, [CHR 0xE9, CHR 0x9C, CHR 0xA7]),
     (48, [CHR 0xE9, CHR 0x9C, CHR 0xA7, CHR 0xE6, CHR 0xB0, CHR 0xB7]),
     (50, [CHR 0xE5, CHR 0xBC, CHR 0xB1, CHR 0xE3, CHR 0x81, CHR 0x84, CHR 0xE9, CHR 0x9C,
       CHR 0xA7, CHR 0xE9, CHR 0x9B, CHR 0xA8]),
     (51, [CHR 0xE9, CHR 0x9C, CHR 0xA7, CHR 0xE9, CHR 0x9B, CHR 0xA8]),
     (53, [CHR 0xE9, CHR 0x9C, CHR 0xA7, CHR 0xE9, CHR 0x9B, CHR 0xA8]),
     (55, [CHR 0xE9, CHR 0x9C, CHR 0xA7, CHR 0xE9, CHR 0x9B, CHR 0xA8]),
     (56, [CHR 0xE6, CHR 0xB0, CHR 0xB7, CHR 0xE9, CHR 0x9C, CHR 0xA7, CHR 0xE9, CHR 0x9B,
       CHR 0xA8]),
     (57, [CHR 0xE5, CHR 0xBC, CHR 0xB7, CHR 0xE3, CHR 0x81, CHR 0x84, CHR 0xE6, CHR 0xB0,
       CHR 0xB7, CHR 0xE9, CHR 0x9C, CHR 0xA7, CHR 0xE9, CHR 0x9B, CHR 0xA8]),
     (58, [CHR 0xE9, CHR 0x9C, CHR 0xA7, CHR 0xE9, CHR 0x9B, CHR 0xA8, CHR 0xE3, CHR 0x81,
       CHR 0xA8, CHR 0xE9, CHR 0x9B, CHR 0xA8]),
     (59, [CHR 0xE5, CHR 0xBC, CHR 0xB7, CHR 0xE3, CHR 0x81, CHR 0x84, CHR 0xE9, CHR 0x9C,
       CHR 0xA7, CHR 0xE9, CHR 0x9B, CHR 0xA8, CHR 0xE3, CHR 0x81, CHR 0xA8, CHR 0xE9,
       CHR 0x9B, CHR 0xA8]),
     (60, [CHR 0xE5, CHR 0xBC, CHR 0xB1, CHR 0xE3, CHR 0x81, CHR 0x84, CHR 0xE9, CHR 0x9B,
       CHR 0xA8]),
     (61, [CHR 0xE9, CHR 0x9B, CHR 0xA8]),
     (63, [CHR 0xE9, CHR 0x9B, CHR 0xA8]),
     (65, [CHR 0xE9, CHR 0x9B, CHR 0xA8]),
     (66, [CHR 0xE5, CHR 0x86, CHR 0xB7, CHR 0xE3, CHR 0x81, CHR 0x9F, CHR 0xE3, CHR 0x81,
       CHR 0x84, CHR 0xE9, CHR 0x9B, CHR 0xA8]),
     (67, [CHR 0xE5, CHR 0xBC, CHR 0xB7, CHR 0xE3, CHR 0x81, CHR 0x84, CHR 0xE5, CHR 0x86,
       CHR 0xB7, CHR 0xE3, CHR 0x81, CHR 0x9F, CHR 0xE3, CHR 0x81, CHR 0x84, CHR 0xE9,
       CHR 0x9B, CHR 0xA8]),
     (68, [CHR 0xE3, CHR 0x81, CHR 0xBF, CHR 0xE3, CHR 0x81, CHR 0x9E, CHR 0xE3, CHR 0x82,
       CHR 0x8C]),
     (69, [CHR 0xE5, CHR 0xBC, CHR 0xB7, CHR 0xE3, CHR 0x81, CHR 0x84, CHR 0xE3, CHR 0x81,
       CHR 0xBF, CHR 0xE3, CHR 0x81, CHR 0x9E, CHR 0xE3, CHR 0x82, CHR 0x8C]),
     (70, [CHR 0xE5, CHR 0xBC, CHR 0xB1, CHR 0xE3, CHR 0x81, CHR 0x84, CHR 0xE9, CHR 0x9B,
       CHR 0xAA]),
     (71, [CHR 0xE9, CHR 0x9B, CHR 0xAA]),
     (73, [CHR 0xE9, CHR 0x9B, CHR 0xAA]),
     (75, [CHR 0xE9, CHR 0x9B, CHR 0xAA]),
     (76, [CHR 0xE7, CHR 0xB4, CHR 0xB0, CHR 0xE3, CHR 0x81, CHR 0x8B, CHR 0xE3, CHR 0x81,
       CHR 0x84, CHR 0xE9, CHR 0x9B, CHR 0xAA]),
     (77, [CHR 0xE9, CHR 0x9C, CHR 0xB0]),
     (78, [CHR 0xE9, CHR 0x9B, CHR 0xAA, CHR 0xE7, CHR 0xB5, CHR 0x90, CHR 0xE6, CHR 0x99,
       CHR 0xB6]),
     (79, [CHR 0xE5, CHR 0x87, CHR 0x8D, CHR 0xE9, CHR 0x9B, CHR 0xA8]),
     (80, [CHR 0xE3, CHR 0x81, CHR 0xAB, CHR 0xE3, CHR 0x82, CHR 0x8F, CHR 0xE3, CHR 0x81,
       CHR 0x8B, CHR 0xE9, CHR 0x9B, CHR 0xA8]),
     (81, [CHR 0xE3, CHR 0x81, CHR 0xAB, CHR 0xE3, CHR 0x82, CHR 0x8F, CHR 0xE3, CHR 0x81,
       CHR 0x8B, CHR 0xE9, CHR 0x9B, CHR 0xA8]),
     (82, [CHR 0xE3, CHR 0x81, CHR 0xAB, CHR 0xE3, CHR 0x82, CHR 0x8F, CHR 0xE3, CHR 0x81,
       CHR 0x8B, CHR 0xE9, CHR 0x9B, CHR 0xA8]),
     (83, [CHR 0xE3, CHR 0x81, CHR 0xAB, CHR 0xE3, CHR 0x82, CHR 0x8F, CHR 0xE3, CHR 0x81,
       CHR 0x8B, CHR 0xE9, CHR 0x9B, CHR 0xA8, CHR 0xE3, CHR 0x81, CHR 0xA8, CHR 0xE9,
       CHR 0x9B, CHR 0xAA]),
     (84, [CHR 0xE5, CHR 0xBC, CHR 0xB7, CHR 0xE3, CHR 0x81, CHR 0x84, CHR 0xE3, CHR 0x81,
       CHR 0xAB, CHR 0xE3, CHR 0x82, CHR 0x8F, CHR 0xE3, CHR 0x81, CHR 0x8B, CHR 0xE9,
       CHR 0x9B, CHR 0xA8, CHR 0xE3, CHR 0x81, CHR 0xA8, CHR 0xE9, CHR 0x9B, CHR 0xAA]),
     (85, [CHR 0xE3, CHR 0x81, CHR 0xAB, CHR 0xE3, CHR 0x82, CHR 0x8F, CHR 0xE3, CHR 0x81,
       CHR 0x8B, CHR 0xE9, CHR 0x9B, CHR 0xAA]),
     (86, [CHR 0xE5, CHR 0xBC, CHR 0xB7, CHR 0xE3, CHR 0x81, CHR 0x84, CHR 0xE3, CHR 0x81,
       CHR 0xAB, CHR 0xE3, CHR 0x82, CHR 0x8F, CHR 0xE3, CHR 0x81, CHR 0x8B, CHR 0xE9,
       CHR 0x9B, CHR 0xAA]),
     (87, [CHR 0xE3, CHR 0x81, CHR 0xAB, CHR 0xE3, CHR 0x82, CHR 0x8F, CHR 0xE3, CHR 0x81,
       CHR 0x8B, CHR 0xE3, CHR 0x81, CHR 0xBF, CHR 0xE3, CHR 0x81, CHR 0x9E, CHR 0xE3,
       CHR 0x82, CHR 0x8C]),
     (88, [CHR 0xE5, CHR 0xBC, CHR 0xB7, CHR 0xE3, CHR 0x81, CHR 0x84, CHR 0xE3, CHR 0x81,
       CHR 0xAB, CHR 0xE3, CHR 0x82, CHR 0x8F, CHR 0xE3, CHR 0x81, CHR 0x8B, CHR 0xE3,
       CHR 0x81, CHR 0xBF, CHR 0xE3, CHR 0x81, CHR 0x9E, CHR 0xE3, CHR 0x82, CHR 0x8C]),
     (89, [CHR 0xE3, CHR 0x81, CHR 0xAB, CHR 0xE3, CHR 0x82, CHR 0x8F, CHR 0xE3, CHR 0x81,
       CHR 0x8B, CHR 0xE3, CHR 0x81, CHR 0xB2, CHR 0xE3, CHR 0x82, CHR 0x87, CHR 0xE3,
       CHR 0x81, CHR 0x86]),
     (90, [CHR 0xE5, CHR 0xBC, CHR 0xB7, CHR 0xE3, CHR 0x81, CHR 0x84, CHR 0xE3, CHR 0x81,
       CHR 0xAB, CHR 0xE3, CHR 0x82, CHR 0x8F, CHR 0xE3, CHR 0x81, CHR 0x8B, CHR 0xE3,
       CHR 0x81, CHR 0xB2, CHR 0xE3, CHR 0x82, CHR 0x87, CHR 0xE3, CHR 0x81, CHR 0x86]),
     (91, [CHR 0xE5, CHR 0xBC, CHR 0xB1, CHR 0xE3, CHR 0x81, CHR 0x84, CHR 0xE9, CHR 0x9B,
       CHR 0xB7, CHR 0xE9, CHR 0x9B, CHR 0xA8]),
     (92, [CHR 0xE9, CHR 0x9B, CHR 0xB7, CHR 0xE9, CHR 0x9B, CHR 0xA8]),
     (93, [CHR 0xE3, CHR 0x81, CHR 0xB2, CHR 0xE3, CHR 0x82, CHR 0x87, CHR 0xE3, CHR 0x81,
       CHR 0x86, CHR 0xE3, CHR 0x82, CHR 0x92, CHR 0xE4, CHR 0xBC, CHR 0xB4, CHR 0xE3,
       CHR 0x81, CHR 0x86, CHR 0xE5, CHR 0xBC, CHR 0xB1, CHR 0xE3, CHR 0x81, CHR 0x84,
       CHR 0xE9, CHR 0x9B, CHR 0xB7, CHR 0xE9, CHR 0x9B, CHR 0xA8]),
     (94, [CHR 0xE3, CHR 0x81, CHR 0xB2, CHR 0xE3, CHR 0x82, CHR 0x87, CHR 0xE3, CHR 0x81,
       CHR 0x86, CHR 0xE3, CHR 0x82, CHR 0x92, CHR 0xE4, CHR 0xBC, CHR 0xB4, CHR 0xE3,
       CHR 0x81, CHR 0x86, CHR 0xE9, CHR 0x9B, CHR 0xB7, CHR 0xE9, CHR 0x9B, CHR 0xA8]),
     (95, [CHR 0xE9, CHR 0x9B, CHR 0xB7, CHR 0xE9, CHR 0x9B, CHR 0xA8]),
     (96, [CHR 0xE6, CHR 0xBF, CHR 0x80, CHR 0xE3, CHR 0x81, CHR 0x97, CHR 0xE3, CHR 0x81,
       CHR 0x84, CHR 0xE9, CHR 0x9B, CHR 0xB7, CHR 0xE9, CHR 0x9B, CHR 0xA8]),
     (97, [CHR 0xE5, CHR 0xBC, CHR 0xB7, CHR 0xE3, CHR 0x81, CHR 0x84, CHR 0xE9, CHR 0x9B,
       CHR 0xB7, CHR 0xE9, CHR 0x9B, CHR 0xA8]),
     (98, [CHR 0xE7, CHR 0xA0, CHR 0x82, CHR 0xE5, CHR 0xA1, CHR 0xB5, CHR 0xE3, CHR 0x82,
       CHR 0x92, CHR 0xE4, CHR 0xBC, CHR 0xB4, CHR 0xE3, CHR 0x81, CHR 0x86, CHR 0xE9,
       CHR 0x9B, CHR 0xB7, CHR 0xE9, CHR 0x9B, CHR 0xA8]),
     (99, [CHR 0xE7, CHR 0x8C, CHR 0x9B, CHR 0xE7, CHR 0x83, CHR 0x88, CHR 0xE3, CHR 0x81,
       CHR 0xAA, CHR 0xE9, CHR 0x9B, CHR 0xB7, CHR 0xE9, CHR 0x9B, CHR 0xA8])]"

text \<open>
  \<open>code_to_weather.get(code, default)\<close>. A dict finds a key by hash and \<open>==\<close>, so
  besides an \<open>int\<close> the keys are matched by \<open>True\<close> and \<open>False\<close> (equal to 1 and 0)
  and by a float with an integer value (\<open>1.0\<close> is \<open>1\<close>, and so is \<open>-0.0\<close> to \<open>0\<close>;
  the float of an integer below \<open>10 ^ 16\<close> is shown as its digits and \<open>.0\<close>). A list or a
  dict is not hashable, and looking it up raises \<open>TypeError\<close>.
\<close>

fun key_eq :: "json \<Rightarrow> int \<Rightarrow> bool" where
  "key_eq (JInt i) k = (i = k)"
| "key_eq (JBool b) k = (k = (if b then 1 else 0))"
| "key_eq (JFloat r) k = (r = str_int k @ ''.0'' \<or> (k = 0 \<and> r = ''-0.0''))"
| "key_eq x k = False"

fun hashable :: "json \<Rightarrow> bool" where
  "hashable (JArr xs) = False"
| "hashable (JObj kv) = False"
| "hashable x = True"

definition table_get :: "(int \<times> string) list \<Rightarrow> json \<Rightarrow> string \<Rightarrow> exn + string" where
  "table_get tbl key dflt =
     (if \<not> hashable key then Inl (TypeError (''unhashable type: '' @ quoted (type_name key)))
      else Inr (case find (\<lambda>kv. key_eq key (fst kv)) tbl of
                  Some kv \<Rightarrow> snd kv
                | None \<Rightarrow> dflt))"

subsection \<open>get\_weather\<close>

definition geo_url :: "string \<Rightarrow> string" where
  "geo_url city = ''https://geocoding-api.open-meteo.com/v1/search?name='' @ city"

definition weather_url :: "(string \<Rightarrow> string) \<Rightarrow> json \<Rightarrow> json \<Rightarrow> string" where
  "weather_url q lat lon =
     ''https://api.open-meteo.com/v1/forecast?''
     @ ''latitude='' @ py_str q lat @ ''&longitude='' @ py_str q lon
     @ ''&current_weather=true&timezone=Asia/Tokyo''"

text \<open>
  The f-strings of the source, each as its literal text around its fields. In English:
  line 115 says that the city in quotes was not found, line 154 is "unknown (code N)",
  line 155 is the sentence "the current weather is D and the temperature is T degrees
  Celsius", line 161 begins "the request to Open-Meteo failed:" and line 166 begins
  "retrieving the weather information failed:".
\<close>

definition not_found_message :: "string \<Rightarrow> string" where
  "not_found_message city =
     [CHR 0xE7, CHR 0x94, CHR 0xB3, CHR 0xE3, CHR 0x81, CHR 0x97, CHR 0xE8, CHR 0xA8,
       CHR 0xB3, CHR 0xE3, CHR 0x81, CHR 0x82, CHR 0xE3, CHR 0x82, CHR 0x8A, CHR 0xE3,
       CHR 0x81, CHR 0xBE, CHR 0xE3, CHR 0x81, CHR 0x9B, CHR 0xE3, CHR 0x82, CHR 0x93,
       CHR 0xE3, CHR 0x80, CHR 0x81, CHR 0xE9, CHR 0x83, CHR 0xBD, CHR 0xE5, CHR 0xB8,
       CHR 0x82, CHR 0xE5, CHR 0x90, CHR 0x8D, CHR '' '', CHR 0x27]
     @ city @
     [CHR 0x27, CHR '' '', CHR 0xE3, CHR 0x81, CHR 0x8C, CHR 0xE8, CHR 0xA6, CHR 0x8B,
       CHR 0xE3, CHR 0x81, CHR 0xA4, CHR 0xE3, CHR 0x81, CHR 0x8B, CHR 0xE3, CHR 0x82,
       CHR 0x8A, CHR 0xE3, CHR 0x81, CHR 0xBE, CHR 0xE3, CHR 0x81, CHR 0x9B, CHR 0xE3,
       CHR 0x82, CHR 0x93, CHR 0xE3, CHR 0x81, CHR 0xA7, CHR 0xE3, CHR 0x81, CHR 0x97,
       CHR 0xE3, CHR 0x81, CHR 0x9F, CHR 0xE3, CHR 0x80, CHR 0x82]"

definition unknown_description :: "string \<Rightarrow> string" where
  "unknown_description code =
     [CHR 0xE4, CHR 0xB8, CHR 0x8D, CHR 0xE6, CHR 0x98, CHR 0x8E, CHR 0xEF, CHR 0xBC,
       CHR 0x88, CHR 0xE3, CHR 0x82, CHR 0xB3, CHR 0xE3, CHR 0x83, CHR 0xBC, CHR 0xE3,
       CHR 0x83, CHR 0x89] @ code @ [CHR 0xEF, CHR 0xBC, CHR 0x89]"

definition report_text :: "string \<Rightarrow> string \<Rightarrow> string" where
  "report_text desc temp =
     [CHR 0xE7, CHR 0x8F, CHR 0xBE, CHR 0xE5, CHR 0x9C, CHR 0xA8, CHR 0xE3, CHR 0x81,
       CHR 0xAE, CHR 0xE5, CHR 0xA4, CHR 0xA9, CHR 0xE6, CHR 0xB0, CHR 0x97, CHR 0xE3,
       CHR 0x81, CHR 0xAF, CHR 0xE3, CHR 0x80, CHR 0x8C]
     @ desc @
     [CHR 0xE3, CHR 0x80, CHR 0x8D, CHR 0xE3, CHR 0x81, CHR 0xA7, CHR 0xE3, CHR 0x80,
       CHR 0x81, CHR 0xE6, CHR 0xB0, CHR 0x97, CHR 0xE6, CHR 0xB8, CHR 0xA9, CHR 0xE3,
       CHR 0x81, CHR 0xAF, CHR 0xE6, CHR 0x91, CHR 0x82, CHR 0xE6, CHR 0xB0, CHR 0x8F]
     @ temp @
     [CHR 0xE5, CHR 0xBA, CHR 0xA6, CHR 0xE3, CHR 0x81, CHR 0xA7, CHR 0xE3, CHR 0x81,
       CHR 0x99, CHR 0xE3, CHR 0x80, CHR 0x82]"

definition request_failed_message :: "string \<Rightarrow> string" where
  "request_failed_message e =
     [CHR ''O'', CHR ''p'', CHR ''e'', CHR ''n'', CHR ''-'', CHR ''M'', CHR ''e'',
       CHR ''t'', CHR ''e'', CHR ''o'', CHR 0xE3, CHR 0x81, CHR 0xB8, CHR 0xE3, CHR 0x81,
       CHR 0xAE, CHR 0xE3, CHR 0x83, CHR 0xAA, CHR 0xE3, CHR 0x82, CHR 0xAF, CHR 0xE3,
       CHR 0x82, CHR 0xA8, CHR 0xE3, CHR 0x82, CHR 0xB9, CHR 0xE3, CHR 0x83, CHR 0x88,
       CHR 0xE3, CHR 0x81, CHR 0xAB, CHR 0xE5, CHR 0xA4, CHR 0xB1, CHR 0xE6, CHR 0x95,
       CHR 0x97, CHR 0xE3, CHR 0x81, CHR 0x97, CHR 0xE3, CHR 0x81, CHR 0xBE, CHR 0xE3,
       CHR 0x81, CHR 0x97, CHR 0xE3, CHR 0x81, CHR 0x9F, CHR '':'', CHR '' '']
     @ e"

definition retrieve_failed_message :: "string \<Rightarrow> string" where
  "retrieve_failed_message e =
     [CHR 0xE5, CHR 0xA4, CHR 0xA9, CHR 0xE6, CHR 0xB0, CHR 0x97, CHR 0xE6, CHR 0x83,
       CHR 0x85, CHR 0xE5, CHR 0xA0, CHR 0xB1, CHR 0xE3, CHR 0x81, CHR 0xAE, CHR 0xE5,
       CHR 0x8F, CHR 0x96, CHR 0xE5, CHR 0xBE, CHR 0x97, CHR 0xE3, CHR 0x81, CHR 0xAB,
       CHR 0xE5, CHR 0xA4, CHR 0xB1, CHR 0xE6, CHR 0x95, CHR 0x97, CHR 0xE3, CHR 0x81,
       CHR 0x97, CHR 0xE3, CHR 0x81, CHR 0xBE, CHR 0xE3, CHR 0x81, CHR 0x97, CHR 0xE3,
       CHR 0x81, CHR 0x9F, CHR '':'', CHR '' '']
     @ e"

definition error_result :: "string \<Rightarrow> result" where
  "error_result msg = [(''status'', ''error''), (''error_message'', msg)]"

definition success_result :: "string \<Rightarrow> result" where
  "success_result report = [(''status'', ''success''), (''report'', report)]"

text \<open>
  The test of line 112, \<open>not res.ok or not res.json().get("results")\<close>: \<open>or\<close> does not
  call \<open>json()\<close> when the status is not ok.
\<close>

definition city_missing :: "response \<Rightarrow> exn + bool" where
  "city_missing res =
     (if \<not> ok res then Inr True
      else and_then (json_result res) (\<lambda>body.
           and_then (dict_get body ''results'' JNull) (\<lambda>results.
           Inr (\<not> truthy results))))"

text \<open>Lines 117 and 118: the coordinates of \<open>res.json()["results"][0]\<close>.\<close>

definition locate :: "response \<Rightarrow> exn + json \<times> json" where
  "locate res =
     and_then (json_result res) (\<lambda>body.
     and_then (subscript_key body ''results'') (\<lambda>results.
     and_then (subscript_zero results) (\<lambda>loc.
     and_then (subscript_key loc ''latitude'') (\<lambda>lat.
     and_then (subscript_key loc ''longitude'') (\<lambda>lon.
     Inr (lat, lon))))))"

definition raise_for_status :: "response \<Rightarrow> exn + unit" where
  "raise_for_status resp =
     (if ok resp then Inr () else Inl (RequestException HTTPError (http_error resp)))"

text \<open>
  The body of the \<open>try\<close> (lines 127 to 156), given the outcome of the forecast request.
  The default of the table lookup is an f-string of the code, built before the lookup.
\<close>

definition try_body :: "(string \<Rightarrow> string) \<Rightarrow> exn + response \<Rightarrow> exn + result" where
  "try_body q got =
     and_then got (\<lambda>resp.
     and_then (raise_for_status resp) (\<lambda>_.
     and_then (json_result resp) (\<lambda>data.
     and_then (dict_get data ''current_weather'' (JObj [])) (\<lambda>current.
     and_then (dict_get current ''temperature'' JNull) (\<lambda>temp.
     and_then (dict_get current ''weathercode'' JNull) (\<lambda>code.
     and_then (table_get code_to_weather code (unknown_description (py_str q code))) (\<lambda>desc.
     Inr (success_result (report_text desc (py_str q temp))))))))))"

text \<open>The \<open>try\<close> with its two handlers, in the source's order.\<close>

definition forecast :: "(string \<Rightarrow> string) \<Rightarrow> exn + response \<Rightarrow> result" where
  "forecast q got =
     (case try_body q got of
        Inr r \<Rightarrow> r
      | Inl e \<Rightarrow>
          if is_RequestException e then error_result (request_failed_message (str_exn e))
          else error_result (retrieve_failed_message (str_exn e)))"

text \<open>
  The function returns the URLs it passed to \<open>requests.get\<close>, in order, and either the
  exception that left it (\<open>Inl\<close>) or the dict it returned (\<open>Inr\<close>).
\<close>

definition get_weather :: "runtime \<Rightarrow> string \<Rightarrow> string list \<times> (exn + result)" where
  "get_weather rt city =
     (let url = geo_url city in
      case requests_get rt url of
        Inl e \<Rightarrow> ([url], Inl e)
      | Inr res \<Rightarrow>
          (case city_missing res of
             Inl e \<Rightarrow> ([url], Inl e)
           | Inr True \<Rightarrow> ([url], Inr (error_result (not_found_message city)))
           | Inr False \<Rightarrow>
               (case locate res of
                  Inl e \<Rightarrow> ([url], Inl e)
                | Inr (lat, lon) \<Rightarrow>
                    (let wurl = weather_url (str_repr rt) lat lon in
                     ([url, wurl], Inr (forecast (str_repr rt) (requests_get rt wurl)))))))"

subsection \<open>Vocabulary of the properties\<close>

text \<open>
  The geocoding stage (lines 110 to 118) gets through: a response arrives, the test of
  line 112 is false, and lines 117 and 118 read the coordinates \<open>lat\<close> and \<open>lon\<close>.
\<close>

definition geocoded :: "runtime \<Rightarrow> string \<Rightarrow> json \<Rightarrow> json \<Rightarrow> bool" where
  "geocoded rt city lat lon =
     (case requests_get rt (geo_url city) of
        Inl e \<Rightarrow> False
      | Inr res \<Rightarrow> city_missing res = Inr False \<and> locate res = Inr (lat, lon))"

text \<open>
  The forecast payloads on which reading the weather raises: a payload that is not an
  object, a \<open>current_weather\<close> member that is there and is not an object, a
  \<open>weathercode\<close> that cannot be a dict key. A missing member is none of these.
\<close>

definition payload_rejected :: "json \<Rightarrow> bool" where
  "payload_rejected data =
     (case data of
        JObj kv \<Rightarrow>
          (case map_of kv ''current_weather'' of
             None \<Rightarrow> False
           | Some (JObj cur) \<Rightarrow>
               (case map_of cur ''weathercode'' of
                  None \<Rightarrow> False
                | Some code \<Rightarrow> \<not> hashable code)
           | Some other \<Rightarrow> True)
      | other \<Rightarrow> True)"

text \<open>
  URL encoding as the specification asks for it, to be compared with what the function
  puts into the URL: the percent-encoding of RFC 3986, which keeps the unreserved
  characters and writes every other byte as \<open>%\<close> and two hexadecimal digits.
\<close>

definition unreserved :: "char \<Rightarrow> bool" where
  "unreserved c =
     (c \<in> set (''abcdefghijklmnopqrstuvwxyz'' @ ''ABCDEFGHIJKLMNOPQRSTUVWXYZ''
               @ ''0123456789'' @ ''-._~''))"

definition percent :: "char \<Rightarrow> string" where
  "percent c =
     [CHR ''%'', ''0123456789ABCDEF'' ! (of_char c div 16),
      ''0123456789ABCDEF'' ! (of_char c mod 16)]"

definition url_encode :: "string \<Rightarrow> string" where
  "url_encode s = concat (map (\<lambda>c. if unreserved c then [c] else percent c) s)"

text \<open>
  Reading a decimal numeral back, to say which number a text shows: the digits from left
  to right, after an optional minus sign.
\<close>

definition read_digits :: "string \<Rightarrow> nat" where
  "read_digits s = foldl (\<lambda>a c. 10 * a + (of_char c - 48)) 0 s"

definition read_int :: "string \<Rightarrow> int" where
  "read_int s =
     (case s of
        [] \<Rightarrow> 0
      | c # ds \<Rightarrow> if c = CHR ''-'' then - int (read_digits ds) else int (read_digits s))"

text \<open>
  Mocked upstreams for the scenarios: \<open>mock city geo fc\<close> answers the geocoding request
  for \<open>city\<close> with \<open>geo\<close> and every other request with \<open>fc\<close>.
\<close>

definition ok_json :: "json \<Rightarrow> exn + response" where
  "ok_json body = Inr \<lparr>ok = True, http_error = [], json_result = Inr body\<rparr>"

definition timed_out :: "exn + response" where
  "timed_out = Inl (RequestException Timeout ''Read timed out. (read timeout=5)'')"

definition mock :: "string \<Rightarrow> exn + response \<Rightarrow> exn + response \<Rightarrow> runtime" where
  "mock city geo fc =
     \<lparr>requests_get = (\<lambda>url. if url = geo_url city then geo else fc), str_repr = quoted\<rparr>"

definition one_place :: json where
  "one_place =
     JObj [(''results'',
            JArr [JObj [(''latitude'', JFloat ''35.68''), (''longitude'', JFloat ''139.69'')]])]"

definition current_weather :: "json \<Rightarrow> json \<Rightarrow> json" where
  "current_weather temp code =
     JObj [(''current_weather'', JObj [(''temperature'', temp), (''weathercode'', code)])]"

section \<open>Properties\<close>

subsection \<open>The stages of the function\<close>

lemma and_then_simps [simp]:
  "and_then (Inl e) f = Inl e"
  "and_then (Inr v) f = f v"
  by (simp_all add: and_then_def)

lemma get_weather_geocoded:
  "geocoded rt city lat lon \<Longrightarrow>
   get_weather rt city =
     ([geo_url city, weather_url (str_repr rt) lat lon],
      Inr (forecast (str_repr rt) (requests_get rt (weather_url (str_repr rt) lat lon))))"
  by (auto simp: geocoded_def get_weather_def Let_def split: sum.splits)

lemma geocoded_first:
  assumes "requests_get rt (geo_url city) = Inr res" and "ok res"
    and "json_result res = Inr (JObj body)"
    and "map_of body ''results'' = Some (JArr (JObj loc # rest))"
    and "map_of loc ''latitude'' = Some lat" and "map_of loc ''longitude'' = Some lon"
  shows "geocoded rt city lat lon"
  using assms by (simp add: geocoded_def city_missing_def locate_def)

lemma first_request: "hd (fst (get_weather rt city)) = geo_url city"
  by (simp add: get_weather_def Let_def split: sum.splits bool.splits prod.splits)

text \<open>
  An exception leaves the function from the geocoding stage only: once that stage is
  through, the two handlers turn every exception of the \<open>try\<close> into a dict.
\<close>

lemma forecast_stage_returns:
  "geocoded rt city lat lon \<Longrightarrow> \<exists>r. snd (get_weather rt city) = Inr r"
  by (simp add: get_weather_geocoded)

lemma raised_in_geocoding:
  "snd (get_weather rt city) = Inl e \<Longrightarrow> fst (get_weather rt city) = [geo_url city]"
  by (auto simp: get_weather_def Let_def split: sum.splits bool.splits prod.splits)

lemma returned_shapes:
  "snd (get_weather rt city) = Inr r \<Longrightarrow>
   (\<exists>m. r = error_result m) \<or> (\<exists>t. r = success_result t)"
  by (auto simp: get_weather_def Let_def forecast_def try_body_def and_then_def
      split: sum.splits bool.splits prod.splits if_splits)

subsection \<open>The table lookup and the formatting\<close>

lemma py_str_int: "py_str q (JInt i) = str_int i"
  by (simp add: py_str_def)

lemma str_int_16: "str_int 16 = ''16''"
  by (simp add: str_int_def digits10.simps [of 16] digits10.simps [of "Suc 0"])

lemma str_int_100: "str_int 100 = ''100''"
  by (simp add: str_int_def digits10.simps [of 100] digits10.simps [of 10]
      digits10.simps [of "Suc 0"])

lemma digit_char:
  assumes "d < 10"
  shows "of_char (''0123456789'' ! d) = 48 + d" and "''0123456789'' ! d \<noteq> CHR ''-''"
proof -
  from assms have "d \<in> {0, 1, 2, 3, 4, 5, 6, 7, 8, 9}" by auto
  then show "of_char (''0123456789'' ! d) = 48 + d" and "''0123456789'' ! d \<noteq> CHR ''-''"
    by auto
qed

lemma read_digits_snoc: "read_digits (s @ [c]) = 10 * read_digits s + (of_char c - 48)"
  by (simp add: read_digits_def)

lemma read_digits_digits10: "read_digits (digits10 n) = n"
proof (induction n rule: digits10.induct)
  case (1 n)
  show ?case
  proof (cases "n < 10")
    case True
    then show ?thesis
      by (simp add: digits10.simps [of n] read_digits_def digit_char)
  next
    case False
    with 1 have "read_digits (digits10 (n div 10)) = n div 10" by simp
    with False show ?thesis
      by (simp add: digits10.simps [of n] read_digits_snoc digit_char)
  qed
qed

lemma digits10_unsigned: "\<exists>c cs. digits10 n = c # cs \<and> c \<noteq> CHR ''-''"
proof (induction n rule: digits10.induct)
  case (1 n)
  show ?case
  proof (cases "n < 10")
    case True
    then show ?thesis by (simp add: digits10.simps [of n] digit_char)
  next
    case False
    with 1 obtain c cs where "digits10 (n div 10) = c # cs" and "c \<noteq> CHR ''-''" by auto
    with False show ?thesis by (simp add: digits10.simps [of n])
  qed
qed

lemma read_int_str_int: "read_int (str_int i) = i"
proof (cases "i < 0")
  case True
  then show ?thesis by (simp add: read_int_def str_int_def read_digits_digits10)
next
  case False
  obtain c cs where "digits10 (nat i) = c # cs" and "c \<noteq> CHR ''-''"
    using digits10_unsigned by blast
  moreover have "read_digits (digits10 (nat i)) = nat i" by (rule read_digits_digits10)
  ultimately show ?thesis using False by (simp add: read_int_def str_int_def)
qed

lemma table_get_int:
  "table_get tbl (JInt k) dflt = Inr (case map_of tbl k of Some d \<Rightarrow> d | None \<Rightarrow> dflt)"
  by (induction tbl) (auto simp: table_get_def)

lemma table_get_error:
  "\<not> hashable code \<Longrightarrow>
   table_get tbl code dflt = Inl (TypeError (''unhashable type: '' @ quoted (type_name code)))"
  by (simp add: table_get_def)

lemma try_body_payload:
  assumes "ok resp" and "json_result resp = Inr (JObj data)"
    and "map_of data ''current_weather'' = Some (JObj cur)"
  shows "try_body q (Inr resp) =
     (let temp = (case map_of cur ''temperature'' of Some t \<Rightarrow> t | None \<Rightarrow> JNull);
          code = (case map_of cur ''weathercode'' of Some c \<Rightarrow> c | None \<Rightarrow> JNull)
      in and_then (table_get code_to_weather code (unknown_description (py_str q code)))
           (\<lambda>desc. Inr (success_result (report_text desc (py_str q temp)))))"
  using assms by (simp add: try_body_def raise_for_status_def Let_def)

lemma current_rejected:
  assumes "case cw of
             JObj cur \<Rightarrow>
               (case map_of cur ''weathercode'' of
                  None \<Rightarrow> False
                | Some code \<Rightarrow> \<not> hashable code)
           | other \<Rightarrow> True"
  shows "\<exists>e. and_then (dict_get cw ''temperature'' JNull) (\<lambda>temp.
              and_then (dict_get cw ''weathercode'' JNull) (\<lambda>code.
              and_then (table_get code_to_weather code (unknown_description (py_str q code)))
                (\<lambda>desc. Inr (success_result (report_text desc (py_str q temp))))))
            = Inl e \<and> (\<exists>m. e = AttributeError m \<or> e = TypeError m)"
  using assms by (cases cw) (auto simp: table_get_error split: option.splits)

lemma payload_rejected_raises:
  assumes "ok resp" and "json_result resp = Inr data" and "payload_rejected data"
  shows "\<exists>e. try_body q (Inr resp) = Inl e \<and> (\<exists>m. e = AttributeError m \<or> e = TypeError m)"
proof (cases data)
  case (JObj kv)
  with assms(3) obtain cw where cw: "map_of kv ''current_weather'' = Some cw"
    and bad: "case cw of
                JObj cur \<Rightarrow>
                  (case map_of cur ''weathercode'' of
                     None \<Rightarrow> False
                   | Some code \<Rightarrow> \<not> hashable code)
              | other \<Rightarrow> True"
    by (cases "map_of kv ''current_weather''") (simp_all add: payload_rejected_def)
  from current_rejected [OF bad, of q] assms(1,2) JObj cw show ?thesis
    by (simp add: try_body_def raise_for_status_def)
qed (insert assms, simp_all add: try_body_def raise_for_status_def)

text \<open>
  Every other payload makes a report: a missing \<open>current_weather\<close>, \<open>temperature\<close> or
  \<open>weathercode\<close> is replaced by the default of its \<open>get\<close> and formatted as \<open>None\<close>.
\<close>

lemma payload_accepted_succeeds:
  assumes "geocoded rt city lat lon"
    and "requests_get rt (weather_url (str_repr rt) lat lon) = Inr resp"
    and "ok resp" and "json_result resp = Inr data"
    and "\<not> payload_rejected data"
  shows "\<exists>report. snd (get_weather rt city) = Inr (success_result report)"
proof -
  have "\<exists>report. try_body (str_repr rt) (Inr resp) = Inr (success_result report)"
    using assms(3,4,5)
    by (auto simp: try_body_def raise_for_status_def payload_rejected_def table_get_def
        split: json.splits option.splits)
  with assms(1,2) show ?thesis
    by (auto simp: get_weather_geocoded forecast_def)
qed

subsection \<open>Percent-encoding\<close>

lemma url_encode_length:
  "length (url_encode s) = length s + 2 * length (filter (\<lambda>c. \<not> unreserved c) s)"
  by (induction s) (simp_all add: url_encode_def percent_def)

lemma url_encode_unreserved: "list_all unreserved s \<Longrightarrow> url_encode s = s"
  by (induction s) (simp_all add: url_encode_def)

lemma url_encode_fixed: "(s = url_encode s) = list_all unreserved s"
proof
  assume "s = url_encode s"
  then have "length (url_encode s) = length s" by simp
  then have "filter (\<lambda>c. \<not> unreserved c) s = []" by (simp add: url_encode_length)
  then show "list_all unreserved s" by (simp add: filter_empty_conv list_all_iff)
qed (simp add: url_encode_unreserved)

subsection \<open>The mocked upstreams\<close>

lemma geocoded_one_place:
  "geocoded (mock ''tokyo'' (ok_json one_place) fc) ''tokyo''
     (JFloat ''35.68'') (JFloat ''139.69'')"
  by (simp add: geocoded_def mock_def ok_json_def one_place_def city_missing_def locate_def)

lemma forecast_one_place:
  "requests_get (mock ''tokyo'' geo fc)
     (weather_url (str_repr (mock ''tokyo'' geo fc)) (JFloat ''35.68'') (JFloat ''139.69''))
   = fc"
  by (simp add: mock_def geo_url_def weather_url_def)

text \<open>
  A geocoding answer whose first result has no \<open>latitude\<close>: the \<open>KeyError\<close> of line 118
  leaves the function, as the timeout of line 111 does.
\<close>

lemma geocoding_shape_escapes:
  "get_weather (mock ''tokyo'' (ok_json (JObj [(''results'', JArr [JObj []])])) timed_out)
     ''tokyo''
   = ([geo_url ''tokyo''], Inl (KeyError (quoted ''latitude'')))"
  by (simp add: get_weather_def mock_def ok_json_def city_missing_def locate_def)

section \<open>The claims\<close>

text \<open>
  C1. When the geocoding request is answered with a status that is not ok, or with a JSON
  object whose \<open>results\<close> member is absent or the empty list, \<open>get_weather\<close> makes no
  second request and returns the dict with \<open>status\<close> \<open>error\<close> and an \<open>error_message\<close>
  that contains the city as it was given; the dict has no \<open>report\<close>.
\<close>

theorem city_not_found:
  assumes "requests_get rt (geo_url city) = Inr res"
    and "\<not> ok res \<or>
         (json_result res = Inr (JObj body) \<and>
          (map_of body ''results'' = None \<or> map_of body ''results'' = Some (JArr [])))"
  shows "get_weather rt city =
           ([geo_url city],
            Inr [(''status'', ''error''), (''error_message'', not_found_message city)])
         \<and> sublist city (not_found_message city)
         \<and> weather_url q lat lon \<notin> set (fst (get_weather rt city))"
proof -
  have miss: "city_missing res = Inr True"
    using assms(2) by (auto simp: city_missing_def)
  have run: "get_weather rt city = ([geo_url city], Inr (error_result (not_found_message city)))"
    using assms(1) miss by (simp add: get_weather_def)
  have other: "weather_url q lat lon \<noteq> geo_url city"
    by (simp add: weather_url_def geo_url_def)
  have "sublist city (not_found_message city)"
    unfolding not_found_message_def by (rule sublist_appendI)
  with run other show ?thesis by (simp add: error_result_def)
qed

theorem city_not_found_witness:
  "get_weather (mock ''doesnotexist123'' (ok_json (JObj [(''results'', JArr [])])) timed_out)
     ''doesnotexist123'' =
   ([geo_url ''doesnotexist123''],
    Inr [(''status'', ''error''), (''error_message'', not_found_message ''doesnotexist123'')])"
proof -
  let ?rt = "mock ''doesnotexist123'' (ok_json (JObj [(''results'', JArr [])])) timed_out"
  let ?res = "\<lparr>ok = True, http_error = [], json_result = Inr (JObj [(''results'', JArr [])])\<rparr>"
  have got: "requests_get ?rt (geo_url ''doesnotexist123'') = Inr ?res"
    by (simp add: mock_def ok_json_def)
  have empty: "\<not> ok ?res \<or>
      (json_result ?res = Inr (JObj [(''results'', JArr [])]) \<and>
       (map_of [(''results'', JArr [])] ''results'' = None \<or>
        map_of [(''results'', JArr [])] ''results'' = Some (JArr [])))"
    by simp
  from city_not_found [OF got empty] show ?thesis by simp
qed

text \<open>
  C2. No exception is to leave \<open>get_weather\<close>, whichever stage fails. The geocoding
  request of line 111 stands before the \<open>try\<close>: when it times out, the \<open>Timeout\<close>
  leaves the function and no dict is returned.
\<close>

theorem geocoding_timeout_escapes:
  "get_weather (mock ''tokyo'' timed_out timed_out) ''tokyo'' =
     ([geo_url ''tokyo''], Inl (RequestException Timeout ''Read timed out. (read timeout=5)''))"
  by (simp add: get_weather_def mock_def timed_out_def)

text \<open>
  C3, as stated: the geocoding URL carries the city URL-encoded. It does not for a city
  with a space or a reserved character.
\<close>

theorem city_url_encoded_counterexample:
  "hd (fst (get_weather (mock ''trinidad & tobago'' timed_out timed_out) ''trinidad & tobago''))
     \<noteq> ''https://geocoding-api.open-meteo.com/v1/search?name=''
         @ url_encode ''trinidad & tobago''"
  by (simp add: first_request geo_url_def url_encode_def unreserved_def percent_def)

text \<open>
  C3, amended. The first request goes to the geocoding URL followed by the city exactly
  as it was given; that is the URL-encoded city if and only if every character of the
  city is unreserved.
\<close>

theorem city_sent_verbatim:
  "hd (fst (get_weather rt city))
     = ''https://geocoding-api.open-meteo.com/v1/search?name='' @ city
   \<and> (hd (fst (get_weather rt city))
        = ''https://geocoding-api.open-meteo.com/v1/search?name='' @ url_encode city)
     = list_all unreserved city"
  by (simp add: first_request geo_url_def url_encode_fixed)

theorem city_sent_verbatim_witness:
  "hd (fst (get_weather (mock ''tokyo'' timed_out timed_out) ''tokyo''))
     = ''https://geocoding-api.open-meteo.com/v1/search?name='' @ url_encode ''tokyo''"
proof -
  have plain: "list_all unreserved ''tokyo''" by (simp add: unreserved_def)
  have "(hd (fst (get_weather (mock ''tokyo'' timed_out timed_out) ''tokyo''))
           = ''https://geocoding-api.open-meteo.com/v1/search?name='' @ url_encode ''tokyo'')
        = list_all unreserved ''tokyo''"
    using city_sent_verbatim [of "mock ''tokyo'' timed_out timed_out" "''tokyo''"]
    by (rule conjunct2)
  then show ?thesis using plain by (rule iffD2)
qed

text \<open>
  C4, as stated: a forecast payload with members missing gives the error of the second
  handler. A payload without \<open>current_weather\<close> gives a report instead, with \<open>None\<close> for
  the code and for the temperature.
\<close>

theorem missing_current_weather_counterexample:
  "snd (get_weather (mock ''tokyo'' (ok_json one_place) (ok_json (JObj []))) ''tokyo'') =
     Inr [(''status'', ''success''),
          (''report'', report_text (unknown_description ''None'') ''None'')]"
  by (simp add: get_weather_def mock_def ok_json_def one_place_def city_missing_def locate_def
      forecast_def try_body_def raise_for_status_def table_get_def code_to_weather_def
      py_str_def success_result_def geo_url_def weather_url_def)

text \<open>
  C4, amended. When the forecast response is ok and its payload is one that reading
  rejects (it is not an object, or its \<open>current_weather\<close> is there and is not an object,
  or its \<open>weathercode\<close> is a list or an object), the body of the \<open>try\<close> raises an
  \<open>AttributeError\<close> or a \<open>TypeError\<close>, and \<open>get_weather\<close> returns \<open>status\<close>
  \<open>error\<close> with the text of line 166 followed by \<open>str\<close> of that exception.
\<close>

theorem rejected_payload_error:
  assumes "geocoded rt city lat lon"
    and "requests_get rt (weather_url (str_repr rt) lat lon) = Inr resp"
    and "ok resp" and "json_result resp = Inr data"
    and "payload_rejected data"
  shows "\<exists>e. try_body (str_repr rt) (Inr resp) = Inl e
           \<and> (\<exists>m. e = AttributeError m \<or> e = TypeError m)
           \<and> snd (get_weather rt city) =
               Inr [(''status'', ''error''),
                    (''error_message'',
                     [CHR 0xE5, CHR 0xA4, CHR 0xA9, CHR 0xE6, CHR 0xB0, CHR 0x97, CHR 0xE6,
                      CHR 0x83, CHR 0x85, CHR 0xE5, CHR 0xA0, CHR 0xB1, CHR 0xE3, CHR 0x81,
                      CHR 0xAE, CHR 0xE5, CHR 0x8F, CHR 0x96, CHR 0xE5, CHR 0xBE, CHR 0x97,
                      CHR 0xE3, CHR 0x81, CHR 0xAB, CHR 0xE5, CHR 0xA4, CHR 0xB1, CHR 0xE6,
                      CHR 0x95, CHR 0x97, CHR 0xE3, CHR 0x81, CHR 0x97, CHR 0xE3, CHR 0x81,
                      CHR 0xBE, CHR 0xE3, CHR 0x81, CHR 0x97, CHR 0xE3, CHR 0x81, CHR 0x9F,
                      CHR '':'', CHR '' '']
                     @ str_exn e)]"
    (is "\<exists>e. ?raised e \<and> ?kind e \<and> ?sent e")
proof -
  from payload_rejected_raises [OF assms(3,4,5)]
  obtain e where raised: "try_body (str_repr rt) (Inr resp) = Inl e"
    and kind: "\<exists>m. e = AttributeError m \<or> e = TypeError m"
    by blast
  from kind have "\<not> is_RequestException e" by auto
  with raised have "forecast (str_repr rt) (Inr resp)
               = error_result (retrieve_failed_message (str_exn e))"
    by (simp add: forecast_def)
  with assms(1,2) have "snd (get_weather rt city) =
      Inr [(''status'', ''error''), (''error_message'', retrieve_failed_message (str_exn e))]"
    by (simp add: get_weather_geocoded error_result_def)
  then have "?sent e" by (simp add: retrieve_failed_message_def)
  with raised kind show ?thesis by (intro exI [of _ e] conjI)
qed

theorem rejected_payload_error_witness:
  "snd (get_weather (mock ''tokyo'' (ok_json one_place) (ok_json (JArr []))) ''tokyo'') =
     Inr [(''status'', ''error''),
          (''error_message'',
           [CHR 0xE5, CHR 0xA4, CHR 0xA9, CHR 0xE6, CHR 0xB0, CHR 0x97, CHR 0xE6, CHR 0x83,
            CHR 0x85, CHR 0xE5, CHR 0xA0, CHR 0xB1, CHR 0xE3, CHR 0x81, CHR 0xAE, CHR 0xE5,
            CHR 0x8F, CHR 0x96, CHR 0xE5, CHR 0xBE, CHR 0x97, CHR 0xE3, CHR 0x81, CHR 0xAB,
            CHR 0xE5, CHR 0xA4, CHR 0xB1, CHR 0xE6, CHR 0x95, CHR 0x97, CHR 0xE3, CHR 0x81,
            CHR 0x97, CHR 0xE3, CHR 0x81, CHR 0xBE, CHR 0xE3, CHR 0x81, CHR 0x97, CHR 0xE3,
            CHR 0x81, CHR 0x9F, CHR '':'', CHR '' '']
           @ [CHR 0x27] @ ''list'' @ [CHR 0x27] @ '' object has no attribute ''
           @ [CHR 0x27] @ ''get'' @ [CHR 0x27])]"
proof -
  let ?rt = "mock ''tokyo'' (ok_json one_place) (ok_json (JArr []))"
  let ?resp = "\<lparr>ok = True, http_error = [], json_result = Inr (JArr [])\<rparr>"
  have got: "requests_get ?rt (weather_url (str_repr ?rt) (JFloat ''35.68'') (JFloat ''139.69''))
               = Inr ?resp"
    by (simp add: forecast_one_place ok_json_def)
  have rejected: "payload_rejected (JArr [])" by (simp add: payload_rejected_def)
  have raised: "try_body (str_repr ?rt) (Inr ?resp) =
      Inl (AttributeError (quoted ''list'' @ '' object has no attribute '' @ quoted ''get''))"
    by (simp add: try_body_def raise_for_status_def)
  from rejected_payload_error [OF geocoded_one_place got _ _ rejected] raised
  show ?thesis by (auto simp: quoted_def)
qed

text \<open>
  C5. When the forecast request raises a \<open>RequestException\<close> (a timeout, a connection
  error) or is answered with a status that is not ok, \<open>get_weather\<close> returns \<open>status\<close>
  \<open>error\<close> with the message of the first handler, which is the text of line 161
  followed by the cause; the message of the second handler is the text of line 166
  followed by its cause, and is never equal to it.
\<close>

theorem forecast_transport_failure:
  assumes "geocoded rt city lat lon"
    and "requests_get rt (weather_url (str_repr rt) lat lon) = Inl (RequestException kind cause)
         \<or> (requests_get rt (weather_url (str_repr rt) lat lon) = Inr resp
             \<and> \<not> ok resp \<and> http_error resp = cause)"
  shows "snd (get_weather rt city) =
           Inr [(''status'', ''error''), (''error_message'', request_failed_message cause)]
         \<and> request_failed_message cause =
             [CHR ''O'', CHR ''p'', CHR ''e'', CHR ''n'', CHR ''-'', CHR ''M'', CHR ''e'',
              CHR ''t'', CHR ''e'', CHR ''o'', CHR 0xE3, CHR 0x81, CHR 0xB8, CHR 0xE3,
              CHR 0x81, CHR 0xAE, CHR 0xE3, CHR 0x83, CHR 0xAA, CHR 0xE3, CHR 0x82,
              CHR 0xAF, CHR 0xE3, CHR 0x82, CHR 0xA8, CHR 0xE3, CHR 0x82, CHR 0xB9,
              CHR 0xE3, CHR 0x83, CHR 0x88, CHR 0xE3, CHR 0x81, CHR 0xAB, CHR 0xE5,
              CHR 0xA4, CHR 0xB1, CHR 0xE6, CHR 0x95, CHR 0x97, CHR 0xE3, CHR 0x81,
              CHR 0x97, CHR 0xE3, CHR 0x81, CHR 0xBE, CHR 0xE3, CHR 0x81, CHR 0x97,
              CHR 0xE3, CHR 0x81, CHR 0x9F, CHR '':'', CHR '' '']
             @ cause
         \<and> (\<forall>other.
               retrieve_failed_message other =
                 [CHR 0xE5, CHR 0xA4, CHR 0xA9, CHR 0xE6, CHR 0xB0, CHR 0x97, CHR 0xE6,
                  CHR 0x83, CHR 0x85, CHR 0xE5, CHR 0xA0, CHR 0xB1, CHR 0xE3, CHR 0x81,
                  CHR 0xAE, CHR 0xE5, CHR 0x8F, CHR 0x96, CHR 0xE5, CHR 0xBE, CHR 0x97,
                  CHR 0xE3, CHR 0x81, CHR 0xAB, CHR 0xE5, CHR 0xA4, CHR 0xB1, CHR 0xE6,
                  CHR 0x95, CHR 0x97, CHR 0xE3, CHR 0x81, CHR 0x97, CHR 0xE3, CHR 0x81,
                  CHR 0xBE, CHR 0xE3, CHR 0x81, CHR 0x97, CHR 0xE3, CHR 0x81, CHR 0x9F,
                  CHR '':'', CHR '' '']
                 @ other
               \<and> request_failed_message cause \<noteq> retrieve_failed_message other)"
proof -
  have "try_body (str_repr rt) (requests_get rt (weather_url (str_repr rt) lat lon))
          = Inl (RequestException kind cause)
        \<or> try_body (str_repr rt) (requests_get rt (weather_url (str_repr rt) lat lon))
          = Inl (RequestException HTTPError cause)"
    using assms(2) by (auto simp: try_body_def raise_for_status_def)
  then have "forecast (str_repr rt) (requests_get rt (weather_url (str_repr rt) lat lon))
          = error_result (request_failed_message cause)"
    by (auto simp: forecast_def)
  with assms(1) have run: "snd (get_weather rt city) =
      Inr [(''status'', ''error''), (''error_message'', request_failed_message cause)]"
    by (simp add: get_weather_geocoded error_result_def)
  have apart: "request_failed_message cause \<noteq> retrieve_failed_message other" for other
    by (simp add: request_failed_message_def retrieve_failed_message_def)
  from run apart show ?thesis
    by (simp add: request_failed_message_def retrieve_failed_message_def)
qed

theorem forecast_transport_failure_witness:
  "snd (get_weather (mock ''tokyo'' (ok_json one_place) timed_out) ''tokyo'') =
     Inr [(''status'', ''error''),
          (''error_message'',
           [CHR ''O'', CHR ''p'', CHR ''e'', CHR ''n'', CHR ''-'', CHR ''M'', CHR ''e'',
            CHR ''t'', CHR ''e'', CHR ''o'', CHR 0xE3, CHR 0x81, CHR 0xB8, CHR 0xE3,
            CHR 0x81, CHR 0xAE, CHR 0xE3, CHR 0x83, CHR 0xAA, CHR 0xE3, CHR 0x82, CHR 0xAF,
            CHR 0xE3, CHR 0x82, CHR 0xA8, CHR 0xE3, CHR 0x82, CHR 0xB9, CHR 0xE3, CHR 0x83,
            CHR 0x88, CHR 0xE3, CHR 0x81, CHR 0xAB, CHR 0xE5, CHR 0xA4, CHR 0xB1, CHR 0xE6,
            CHR 0x95, CHR 0x97, CHR 0xE3, CHR 0x81, CHR 0x97, CHR 0xE3, CHR 0x81, CHR 0xBE,
            CHR 0xE3, CHR 0x81, CHR 0x97, CHR 0xE3, CHR 0x81, CHR 0x9F, CHR '':'',
            CHR '' '']
           @ ''Read timed out. (read timeout=5)'')]"
proof -
  let ?rt = "mock ''tokyo'' (ok_json one_place) timed_out"
  let ?down = "\<lparr>ok = False, http_error = [], json_result = Inr JNull\<rparr>"
  have got: "requests_get ?rt (weather_url (str_repr ?rt) (JFloat ''35.68'') (JFloat ''139.69''))
               = Inl (RequestException Timeout ''Read timed out. (read timeout=5)'')
             \<or> (requests_get ?rt
                   (weather_url (str_repr ?rt) (JFloat ''35.68'') (JFloat ''139.69''))
                   = Inr ?down
                 \<and> \<not> ok ?down
                 \<and> http_error ?down = ''Read timed out. (read timeout=5)'')"
    by (simp add: forecast_one_place timed_out_def)
  from forecast_transport_failure [OF geocoded_one_place got] show ?thesis
    by simp
qed

text \<open>
  C6. When the geocoding response is ok and its \<open>results\<close> list begins with an object that
  has a \<open>latitude\<close> and a \<open>longitude\<close>, the forecast is requested for these two values
  and the outcome is the outcome of that request, whatever follows in the list.
\<close>

theorem first_result_coordinates:
  assumes "requests_get rt (geo_url city) = Inr res" and "ok res"
    and "json_result res = Inr (JObj body)"
    and "map_of body ''results'' = Some (JArr (JObj loc # rest))"
    and "map_of loc ''latitude'' = Some lat" and "map_of loc ''longitude'' = Some lon"
  shows "get_weather rt city =
           ([geo_url city, weather_url (str_repr rt) lat lon],
            Inr (forecast (str_repr rt) (requests_get rt (weather_url (str_repr rt) lat lon))))"
  using assms by (intro get_weather_geocoded geocoded_first)

theorem first_result_coordinates_witness:
  "fst (get_weather
     (mock ''springfield''
        (ok_json (JObj [(''results'',
           JArr [JObj [(''latitude'', JFloat ''39.8''), (''longitude'', JFloat ''-89.64'')],
                 JObj [(''latitude'', JFloat ''37.22''), (''longitude'', JFloat ''-93.29'')]])]))
        timed_out)
     ''springfield'') =
   [''https://geocoding-api.open-meteo.com/v1/search?name=springfield'',
    ''https://api.open-meteo.com/v1/forecast?latitude=39.8&longitude=-89.64''
      @ ''&current_weather=true&timezone=Asia/Tokyo'']"
proof -
  let ?first = "[(''latitude'', JFloat ''39.8''), (''longitude'', JFloat ''-89.64'')]"
  let ?rest = "[JObj [(''latitude'', JFloat ''37.22''), (''longitude'', JFloat ''-93.29'')]]"
  let ?body = "[(''results'', JArr (JObj ?first # ?rest))]"
  let ?res = "\<lparr>ok = True, http_error = [], json_result = Inr (JObj ?body)\<rparr>"
  let ?rt = "mock ''springfield'' (ok_json (JObj ?body)) timed_out"
  have got: "requests_get ?rt (geo_url ''springfield'') = Inr ?res"
    by (simp add: mock_def ok_json_def)
  have "get_weather ?rt ''springfield'' =
     ([geo_url ''springfield'',
       weather_url (str_repr ?rt) (JFloat ''39.8'') (JFloat ''-89.64'')],
      Inr (forecast (str_repr ?rt)
        (requests_get ?rt (weather_url (str_repr ?rt) (JFloat ''39.8'') (JFloat ''-89.64'')))))"
    by (rule first_result_coordinates
          [OF got, where body = ?body and loc = ?first and rest = ?rest])
       simp_all
  then show ?thesis by (simp add: geo_url_def weather_url_def py_str_def)
qed

text \<open>
  C7. When the forecast payload carries an integer \<open>weathercode\<close> that is a key of
  \<open>code_to_weather\<close>, the report is the sentence of line 155 with the table's entry for
  that key as its description, so the entry stands in the report. The entry of 0 is the
  source's text for a clear sky and the entry of 95 its text for a thunderstorm.
\<close>

theorem table_description_in_report:
  assumes "geocoded rt city lat lon"
    and "requests_get rt (weather_url (str_repr rt) lat lon) = Inr resp"
    and "ok resp" and "json_result resp = Inr (JObj data)"
    and "map_of data ''current_weather'' = Some (JObj cur)"
    and "map_of cur ''weathercode'' = Some (JInt code)"
    and "map_of code_to_weather code = Some d"
  shows "(\<exists>report.
            snd (get_weather rt city) = Inr [(''status'', ''success''), (''report'', report)]
            \<and> report =
                [CHR 0xE7, CHR 0x8F, CHR 0xBE, CHR 0xE5, CHR 0x9C, CHR 0xA8, CHR 0xE3,
                 CHR 0x81, CHR 0xAE, CHR 0xE5, CHR 0xA4, CHR 0xA9, CHR 0xE6, CHR 0xB0,
                 CHR 0x97, CHR 0xE3, CHR 0x81, CHR 0xAF, CHR 0xE3, CHR 0x80, CHR 0x8C]
                @ d @
                [CHR 0xE3, CHR 0x80, CHR 0x8D, CHR 0xE3, CHR 0x81, CHR 0xA7, CHR 0xE3,
                 CHR 0x80, CHR 0x81, CHR 0xE6, CHR 0xB0, CHR 0x97, CHR 0xE6, CHR 0xB8,
                 CHR 0xA9, CHR 0xE3, CHR 0x81, CHR 0xAF, CHR 0xE6, CHR 0x91, CHR 0x82,
                 CHR 0xE6, CHR 0xB0, CHR 0x8F]
                @ py_str (str_repr rt)
                    (case map_of cur ''temperature'' of Some t \<Rightarrow> t | None \<Rightarrow> JNull) @
                [CHR 0xE5, CHR 0xBA, CHR 0xA6, CHR 0xE3, CHR 0x81, CHR 0xA7, CHR 0xE3,
                 CHR 0x81, CHR 0x99, CHR 0xE3, CHR 0x80, CHR 0x82]
            \<and> sublist d report)
         \<and> map_of code_to_weather 0
             = Some [CHR 0xE5, CHR 0xBF, CHR 0xAB, CHR 0xE6, CHR 0x99, CHR 0xB4]
         \<and> map_of code_to_weather 95
             = Some [CHR 0xE9, CHR 0x9B, CHR 0xB7, CHR 0xE9, CHR 0x9B, CHR 0xA8]"
proof -
  let ?temp = "py_str (str_repr rt)
                 (case map_of cur ''temperature'' of Some t \<Rightarrow> t | None \<Rightarrow> JNull)"
  have clear: "map_of code_to_weather 0
          = Some [CHR 0xE5, CHR 0xBF, CHR 0xAB, CHR 0xE6, CHR 0x99, CHR 0xB4]"
    by (simp add: code_to_weather_def)
  have thunder: "map_of code_to_weather 95
          = Some [CHR 0xE9, CHR 0x9B, CHR 0xB7, CHR 0xE9, CHR 0x9B, CHR 0xA8]"
    by (simp add: code_to_weather_def)
  have "snd (get_weather rt city) = Inr (success_result (report_text d ?temp))"
    using assms
    by (simp add: get_weather_geocoded forecast_def try_body_payload table_get_int)
  then have run: "snd (get_weather rt city) =
      Inr [(''status'', ''success''), (''report'', report_text d ?temp)]"
    by (simp add: success_result_def)
  have inside: "sublist d (report_text d ?temp)"
    unfolding report_text_def by (rule sublist_appendI)
  have "\<exists>report.
          snd (get_weather rt city) = Inr [(''status'', ''success''), (''report'', report)]
          \<and> report = report_text d ?temp \<and> sublist d report"
    using run inside by blast
  then show ?thesis
    unfolding report_text_def using clear thunder by blast
qed

theorem table_description_in_report_witness:
  "snd (get_weather
     (mock ''tokyo'' (ok_json one_place) (ok_json (current_weather (JFloat ''18.2'') (JInt 95))))
     ''tokyo'') =
   Inr [(''status'', ''success''),
        (''report'',
         [CHR 0xE7, CHR 0x8F, CHR 0xBE, CHR 0xE5, CHR 0x9C, CHR 0xA8, CHR 0xE3, CHR 0x81,
          CHR 0xAE, CHR 0xE5, CHR 0xA4, CHR 0xA9, CHR 0xE6, CHR 0xB0, CHR 0x97, CHR 0xE3,
          CHR 0x81, CHR 0xAF, CHR 0xE3, CHR 0x80, CHR 0x8C]
         @ [CHR 0xE9, CHR 0x9B, CHR 0xB7, CHR 0xE9, CHR 0x9B, CHR 0xA8] @
         [CHR 0xE3, CHR 0x80, CHR 0x8D, CHR 0xE3, CHR 0x81, CHR 0xA7, CHR 0xE3, CHR 0x80,
          CHR 0x81, CHR 0xE6, CHR 0xB0, CHR 0x97, CHR 0xE6, CHR 0xB8, CHR 0xA9, CHR 0xE3,
          CHR 0x81, CHR 0xAF, CHR 0xE6, CHR 0x91, CHR 0x82, CHR 0xE6, CHR 0xB0, CHR 0x8F]
         @ ''18.2'' @
         [CHR 0xE5, CHR 0xBA, CHR 0xA6, CHR 0xE3, CHR 0x81, CHR 0xA7, CHR 0xE3, CHR 0x81,
          CHR 0x99, CHR 0xE3, CHR 0x80, CHR 0x82])]"
proof -
  let ?cur = "[(''temperature'', JFloat ''18.2''), (''weathercode'', JInt 95)]"
  let ?data = "[(''current_weather'', JObj ?cur)]"
  let ?resp = "\<lparr>ok = True, http_error = [], json_result = Inr (JObj ?data)\<rparr>"
  let ?rt = "mock ''tokyo'' (ok_json one_place)
               (ok_json (current_weather (JFloat ''18.2'') (JInt 95)))"
  have got: "requests_get ?rt (weather_url (str_repr ?rt) (JFloat ''35.68'') (JFloat ''139.69''))
               = Inr ?resp"
    by (simp add: forecast_one_place ok_json_def current_weather_def)
  have entry: "map_of code_to_weather 95
                 = Some [CHR 0xE9, CHR 0x9B, CHR 0xB7, CHR 0xE9, CHR 0x9B, CHR 0xA8]"
    by (simp add: code_to_weather_def)
  from table_description_in_report
         [OF geocoded_one_place got _ _ _ _ entry, where data = ?data and cur = ?cur]
  show ?thesis by (auto simp: py_str_def)
qed

text \<open>
  C8. When the forecast payload carries an integer \<open>weathercode\<close> that is no key of
  \<open>code_to_weather\<close> (16 and 100 are none), the result is still a success. The
  description is the fallback text of line 154 around the decimal numeral of the code,
  which reads back as the code, and the report is the sentence of line 155 around that
  description.
\<close>

theorem unknown_code_fallback:
  assumes "geocoded rt city lat lon"
    and "requests_get rt (weather_url (str_repr rt) lat lon) = Inr resp"
    and "ok resp" and "json_result resp = Inr (JObj data)"
    and "map_of data ''current_weather'' = Some (JObj cur)"
    and "map_of cur ''weathercode'' = Some (JInt code)"
    and "map_of code_to_weather code = None"
  shows "\<exists>desc report.
           snd (get_weather rt city) = Inr [(''status'', ''success''), (''report'', report)]
           \<and> desc =
               [CHR 0xE4, CHR 0xB8, CHR 0x8D, CHR 0xE6, CHR 0x98, CHR 0x8E, CHR 0xEF,
                CHR 0xBC, CHR 0x88, CHR 0xE3, CHR 0x82, CHR 0xB3, CHR 0xE3, CHR 0x83,
                CHR 0xBC, CHR 0xE3, CHR 0x83, CHR 0x89]
               @ str_int code @ [CHR 0xEF, CHR 0xBC, CHR 0x89]
           \<and> report =
               [CHR 0xE7, CHR 0x8F, CHR 0xBE, CHR 0xE5, CHR 0x9C, CHR 0xA8, CHR 0xE3,
                CHR 0x81, CHR 0xAE, CHR 0xE5, CHR 0xA4, CHR 0xA9, CHR 0xE6, CHR 0xB0,
                CHR 0x97, CHR 0xE3, CHR 0x81, CHR 0xAF, CHR 0xE3, CHR 0x80, CHR 0x8C]
               @ desc @
               [CHR 0xE3, CHR 0x80, CHR 0x8D, CHR 0xE3, CHR 0x81, CHR 0xA7, CHR 0xE3,
                CHR 0x80, CHR 0x81, CHR 0xE6, CHR 0xB0, CHR 0x97, CHR 0xE6, CHR 0xB8,
                CHR 0xA9, CHR 0xE3, CHR 0x81, CHR 0xAF, CHR 0xE6, CHR 0x91, CHR 0x82,
                CHR 0xE6, CHR 0xB0, CHR 0x8F]
               @ py_str (str_repr rt)
                   (case map_of cur ''temperature'' of Some t \<Rightarrow> t | None \<Rightarrow> JNull) @
               [CHR 0xE5, CHR 0xBA, CHR 0xA6, CHR 0xE3, CHR 0x81, CHR 0xA7, CHR 0xE3,
                CHR 0x81, CHR 0x99, CHR 0xE3, CHR 0x80, CHR 0x82]
           \<and> sublist (str_int code) desc \<and> sublist desc report
           \<and> read_int (str_int code) = code"
proof -
  let ?temp = "py_str (str_repr rt)
                 (case map_of cur ''temperature'' of Some t \<Rightarrow> t | None \<Rightarrow> JNull)"
  let ?desc = "unknown_description (str_int code)"
  have "snd (get_weather rt city) = Inr (success_result (report_text ?desc ?temp))"
    using assms
    by (simp add: get_weather_geocoded forecast_def try_body_payload table_get_int py_str_int)
  then have run: "snd (get_weather rt city) =
      Inr [(''status'', ''success''), (''report'', report_text ?desc ?temp)]"
    by (simp add: success_result_def)
  have digits: "sublist (str_int code) ?desc"
    unfolding unknown_description_def by (rule sublist_appendI)
  have inside: "sublist ?desc (report_text ?desc ?temp)"
    unfolding report_text_def by (rule sublist_appendI)
  have "\<exists>desc report.
          snd (get_weather rt city) = Inr [(''status'', ''success''), (''report'', report)]
          \<and> desc = unknown_description (str_int code)
          \<and> report = report_text desc ?temp
          \<and> sublist (str_int code) desc \<and> sublist desc report
          \<and> read_int (str_int code) = code"
    using run digits inside read_int_str_int [of code] by blast
  then show ?thesis
    unfolding report_text_def unknown_description_def .
qed

theorem unknown_code_fallback_witness:
  "snd (get_weather
     (mock ''tokyo'' (ok_json one_place) (ok_json (current_weather (JFloat ''18.2'') (JInt 16))))
     ''tokyo'') =
   Inr [(''status'', ''success''),
        (''report'',
         [CHR 0xE7, CHR 0x8F, CHR 0xBE, CHR 0xE5, CHR 0x9C, CHR 0xA8, CHR 0xE3, CHR 0x81,
          CHR 0xAE, CHR 0xE5, CHR 0xA4, CHR 0xA9, CHR 0xE6, CHR 0xB0, CHR 0x97, CHR 0xE3,
          CHR 0x81, CHR 0xAF, CHR 0xE3, CHR 0x80, CHR 0x8C]
         @ ([CHR 0xE4, CHR 0xB8, CHR 0x8D, CHR 0xE6, CHR 0x98, CHR 0x8E, CHR 0xEF, CHR 0xBC,
             CHR 0x88, CHR 0xE3, CHR 0x82, CHR 0xB3, CHR 0xE3, CHR 0x83, CHR 0xBC, CHR 0xE3,
             CHR 0x83, CHR 0x89]
            @ ''16'' @ [CHR 0xEF, CHR 0xBC, CHR 0x89]) @
         [CHR 0xE3, CHR 0x80, CHR 0x8D, CHR 0xE3, CHR 0x81, CHR 0xA7, CHR 0xE3, CHR 0x80,
          CHR 0x81, CHR 0xE6, CHR 0xB0, CHR 0x97, CHR 0xE6, CHR 0xB8, CHR 0xA9, CHR 0xE3,
          CHR 0x81, CHR 0xAF, CHR 0xE6, CHR 0x91, CHR 0x82, CHR 0xE6, CHR 0xB0, CHR 0x8F]
         @ ''18.2'' @
         [CHR 0xE5, CHR 0xBA, CHR 0xA6, CHR 0xE3, CHR 0x81, CHR 0xA7, CHR 0xE3, CHR 0x81,
          CHR 0x99, CHR 0xE3, CHR 0x80, CHR 0x82])]
   \<and> snd (get_weather
     (mock ''tokyo'' (ok_json one_place) (ok_json (current_weather (JFloat ''18.2'') (JInt 100))))
     ''tokyo'') =
   Inr [(''status'', ''success''),
        (''report'',
         [CHR 0xE7, CHR 0x8F, CHR 0xBE, CHR 0xE5, CHR 0x9C, CHR 0xA8, CHR 0xE3, CHR 0x81,
          CHR 0xAE, CHR 0xE5, CHR 0xA4, CHR 0xA9, CHR 0xE6, CHR 0xB0, CHR 0x97, CHR 0xE3,
          CHR 0x81, CHR 0xAF, CHR 0xE3, CHR 0x80, CHR 0x8C]
         @ ([CHR 0xE4, CHR 0xB8, CHR 0x8D, CHR 0xE6, CHR 0x98, CHR 0x8E, CHR 0xEF, CHR 0xBC,
             CHR 0x88, CHR 0xE3, CHR 0x82, CHR 0xB3, CHR 0xE3, CHR 0x83, CHR 0xBC, CHR 0xE3,
             CHR 0x83, CHR 0x89]
            @ ''100'' @ [CHR 0xEF, CHR 0xBC, CHR 0x89]) @
         [CHR 0xE3, CHR 0x80, CHR 0x8D, CHR 0xE3, CHR 0x81, CHR 0xA7, CHR 0xE3, CHR 0x80,
          CHR 0x81, CHR 0xE6, CHR 0xB0, CHR 0x97, CHR 0xE6, CHR 0xB8, CHR 0xA9, CHR 0xE3,
          CHR 0x81, CHR 0xAF, CHR 0xE6, CHR 0x91, CHR 0x82, CHR 0xE6, CHR 0xB0, CHR 0x8F]
         @ ''18.2'' @
         [CHR 0xE5, CHR 0xBA, CHR 0xA6, CHR 0xE3, CHR 0x81, CHR 0xA7, CHR 0xE3, CHR 0x81,
          CHR 0x99, CHR 0xE3, CHR 0x80, CHR 0x82])]"
proof -
  have got: "requests_get
               (mock ''tokyo'' (ok_json one_place)
                  (ok_json (current_weather (JFloat ''18.2'') (JInt n))))
               (weather_url
                  (str_repr (mock ''tokyo'' (ok_json one_place)
                     (ok_json (current_weather (JFloat ''18.2'') (JInt n)))))
                  (JFloat ''35.68'') (JFloat ''139.69''))
             = Inr \<lparr>ok = True, http_error = [],
                   json_result = Inr (JObj [(''current_weather'',
                     JObj [(''temperature'', JFloat ''18.2''), (''weathercode'', JInt n)])])\<rparr>"
    for n
    by (simp add: forecast_one_place ok_json_def current_weather_def)
  have absent: "map_of code_to_weather 16 = None" "map_of code_to_weather 100 = None"
    by (simp_all add: code_to_weather_def)
  from unknown_code_fallback
         [OF geocoded_one_place got _ _ _ _ absent(1),
          where data = "[(''current_weather'',
                          JObj [(''temperature'', JFloat ''18.2''), (''weathercode'', JInt 16)])]"
            and cur = "[(''temperature'', JFloat ''18.2''), (''weathercode'', JInt 16)]"]
  have first: "snd (get_weather
     (mock ''tokyo'' (ok_json one_place) (ok_json (current_weather (JFloat ''18.2'') (JInt 16))))
     ''tokyo'') =
   Inr [(''status'', ''success''),
        (''report'',
         [CHR 0xE7, CHR 0x8F, CHR 0xBE, CHR 0xE5, CHR 0x9C, CHR 0xA8, CHR 0xE3, CHR 0x81,
          CHR 0xAE, CHR 0xE5, CHR 0xA4, CHR 0xA9, CHR 0xE6, CHR 0xB0, CHR 0x97, CHR 0xE3,
          CHR 0x81, CHR 0xAF, CHR 0xE3, CHR 0x80, CHR 0x8C]
         @ ([CHR 0xE4, CHR 0xB8, CHR 0x8D, CHR 0xE6, CHR 0x98, CHR 0x8E, CHR 0xEF, CHR 0xBC,
             CHR 0x88, CHR 0xE3, CHR 0x82, CHR 0xB3, CHR 0xE3, CHR 0x83, CHR 0xBC, CHR 0xE3,
             CHR 0x83, CHR 0x89]
            @ ''16'' @ [CHR 0xEF, CHR 0xBC, CHR 0x89]) @
         [CHR 0xE3, CHR 0x80, CHR 0x8D, CHR 0xE3, CHR 0x81, CHR 0xA7, CHR 0xE3, CHR 0x80,
          CHR 0x81, CHR 0xE6, CHR 0xB0, CHR 0x97, CHR 0xE6, CHR 0xB8, CHR 0xA9, CHR 0xE3,
          CHR 0x81, CHR 0xAF, CHR 0xE6, CHR 0x91, CHR 0x82, CHR 0xE6, CHR 0xB0, CHR 0x8F]
         @ ''18.2'' @
         [CHR 0xE5, CHR 0xBA, CHR 0xA6, CHR 0xE3, CHR 0x81, CHR 0xA7, CHR 0xE3, CHR 0x81,
          CHR 0x99, CHR 0xE3, CHR 0x80, CHR 0x82])]"
    by (auto simp: py_str_def str_int_16)
  from unknown_code_fallback
         [OF geocoded_one_place got _ _ _ _ absent(2),
          where data = "[(''current_weather'',
                          JObj [(''temperature'', JFloat ''18.2''), (''weathercode'', JInt 100)])]"
            and cur = "[(''temperature'', JFloat ''18.2''), (''weathercode'', JInt 100)]"]
  have second: "snd (get_weather
     (mock ''tokyo'' (ok_json one_place) (ok_json (current_weather (JFloat ''18.2'') (JInt 100))))
     ''tokyo'') =
   Inr [(''status'', ''success''),
        (''report'',
         [CHR 0xE7, CHR 0x8F, CHR 0xBE, CHR 0xE5, CHR 0x9C, CHR 0xA8, CHR 0xE3, CHR 0x81,
          CHR 0xAE, CHR 0xE5, CHR 0xA4, CHR 0xA9, CHR 0xE6, CHR 0xB0, CHR 0x97, CHR 0xE3,
          CHR 0x81, CHR 0xAF, CHR 0xE3, CHR 0x80, CHR 0x8C]
         @ ([CHR 0xE4, CHR 0xB8, CHR 0x8D, CHR 0xE6, CHR 0x98, CHR 0x8E, CHR 0xEF, CHR 0xBC,
             CHR 0x88, CHR 0xE3, CHR 0x82, CHR 0xB3, CHR 0xE3, CHR 0x83, CHR 0xBC, CHR 0xE3,
             CHR 0x83, CHR 0x89]
            @ ''100'' @ [CHR 0xEF, CHR 0xBC, CHR 0x89]) @
         [CHR 0xE3, CHR 0x80, CHR 0x8D, CHR 0xE3, CHR 0x81, CHR 0xA7, CHR 0xE3, CHR 0x80,
          CHR 0x81, CHR 0xE6, CHR 0xB0, CHR 0x97, CHR 0xE6, CHR 0xB8, CHR 0xA9, CHR 0xE3,
          CHR 0x81, CHR 0xAF, CHR 0xE6, CHR 0x91, CHR 0x82, CHR 0xE6, CHR 0xB0, CHR 0x8F]
         @ ''18.2'' @
         [CHR 0xE5, CHR 0xBA, CHR 0xA6, CHR 0xE3, CHR 0x81, CHR 0xA7, CHR 0xE3, CHR 0x81,
          CHR 0x99, CHR 0xE3, CHR 0x80, CHR 0x82])]"
    by (auto simp: py_str_def str_int_100)
  from first second show ?thesis by (rule conjI)
qed

text \<open>
  C9. When the geocoding response is ok with a first result that has coordinates, and the
  forecast response is ok with a \<open>current_weather\<close> object that has a \<open>temperature\<close> and
  an integer \<open>weathercode\<close>, \<open>get_weather\<close> returns \<open>status\<close> \<open>success\<close> with a report
  that contains the description of the code and the temperature as \<open>str\<close> shows it. For
  Tokyo with temperature 21.5 and code 1 the report holds the entry of 1 and \<open>21.5\<close>.
\<close>

theorem success_report_contents:
  assumes "requests_get rt (geo_url city) = Inr res" and "ok res"
    and "json_result res = Inr (JObj body)"
    and "map_of body ''results'' = Some (JArr (JObj loc # rest))"
    and "map_of loc ''latitude'' = Some lat" and "map_of loc ''longitude'' = Some lon"
    and "requests_get rt (weather_url (str_repr rt) lat lon) = Inr resp" and "ok resp"
    and "json_result resp = Inr (JObj data)"
    and "map_of data ''current_weather'' = Some (JObj cur)"
    and "map_of cur ''temperature'' = Some temp"
    and "map_of cur ''weathercode'' = Some (JInt code)"
    and "desc = (case map_of code_to_weather code of
                   Some d \<Rightarrow> d
                 | None \<Rightarrow> unknown_description (str_int code))"
  shows "\<exists>report.
           snd (get_weather rt city) = Inr [(''status'', ''success''), (''report'', report)]
           \<and> report = report_text desc (py_str (str_repr rt) temp)
           \<and> sublist desc report \<and> sublist (py_str (str_repr rt) temp) report"
proof -
  have geo: "geocoded rt city lat lon"
    using assms(1-6) by (rule geocoded_first)
  have run: "snd (get_weather rt city) =
      Inr (success_result (report_text desc (py_str (str_repr rt) temp)))"
    using assms(7-13)
    by (simp add: get_weather_geocoded [OF geo] forecast_def try_body_payload table_get_int
        py_str_int split: option.splits)
  have "sublist desc (report_text desc t)" for t
    unfolding report_text_def by (rule sublist_appendI)
  moreover have "sublist t (report_text desc t)" for t
    unfolding report_text_def sublist_def by (metis append.assoc)
  ultimately show ?thesis using run by (simp add: success_result_def)
qed

theorem success_report_contents_witness:
  "snd (get_weather
     (mock ''tokyo'' (ok_json one_place) (ok_json (current_weather (JFloat ''21.5'') (JInt 1))))
     ''tokyo'') =
   Inr [(''status'', ''success''),
        (''report'',
         report_text [CHR 0xE6, CHR 0x99, CHR 0xB4, CHR 0xE3, CHR 0x82, CHR 0x8C] ''21.5'')]
   \<and> sublist ''21.5''
        (report_text [CHR 0xE6, CHR 0x99, CHR 0xB4, CHR 0xE3, CHR 0x82, CHR 0x8C] ''21.5'')"
proof -
  let ?loc = "[(''latitude'', JFloat ''35.68''), (''longitude'', JFloat ''139.69'')]"
  let ?body = "[(''results'', JArr [JObj ?loc])]"
  let ?res = "\<lparr>ok = True, http_error = [], json_result = Inr (JObj ?body)\<rparr>"
  let ?cur = "[(''temperature'', JFloat ''21.5''), (''weathercode'', JInt 1)]"
  let ?data = "[(''current_weather'', JObj ?cur)]"
  let ?resp = "\<lparr>ok = True, http_error = [], json_result = Inr (JObj ?data)\<rparr>"
  let ?rt = "mock ''tokyo'' (ok_json one_place)
               (ok_json (current_weather (JFloat ''21.5'') (JInt 1)))"
  let ?hare = "[CHR 0xE6, CHR 0x99, CHR 0xB4, CHR 0xE3, CHR 0x82, CHR 0x8C]"
  have geo: "requests_get ?rt (geo_url ''tokyo'') = Inr ?res"
    by (simp add: mock_def ok_json_def one_place_def)
  have got: "requests_get ?rt (weather_url (str_repr ?rt) (JFloat ''35.68'') (JFloat ''139.69''))
               = Inr ?resp"
    by (simp add: forecast_one_place ok_json_def current_weather_def)
  have desc: "?hare = (case map_of code_to_weather 1 of
                         Some d \<Rightarrow> d
                       | None \<Rightarrow> unknown_description (str_int 1))"
    by (simp add: code_to_weather_def)
  have "\<exists>report.
          snd (get_weather ?rt ''tokyo'') = Inr [(''status'', ''success''), (''report'', report)]
          \<and> report = report_text ?hare (py_str (str_repr ?rt) (JFloat ''21.5''))
          \<and> sublist ?hare report \<and> sublist (py_str (str_repr ?rt) (JFloat ''21.5'')) report"
    by (rule success_report_contents [OF geo _ _ _ _ _ got _ _ _ _ _ desc,
          where body = ?body and loc = ?loc and rest = "[]" and data = ?data and cur = ?cur])
       simp_all
  then show ?thesis by (auto simp: py_str_def)
qed

text \<open>
  C10. Every dict that \<open>get_weather\<close> returns has a \<open>status\<close> that is \<open>success\<close> or
  \<open>error\<close>; it has a \<open>report\<close> exactly when the status is \<open>success\<close> and an
  \<open>error_message\<close> exactly when the status is \<open>error\<close>, and no other key.
\<close>

theorem result_shape:
  assumes "snd (get_weather rt city) = Inr r"
  shows "(map_of r ''status'' = Some ''success'' \<or> map_of r ''status'' = Some ''error'')
         \<and> (''report'' \<in> fst ` set r) = (map_of r ''status'' = Some ''success'')
         \<and> (''error_message'' \<in> fst ` set r) = (map_of r ''status'' = Some ''error'')
         \<and> fst ` set r \<subseteq> {''status'', ''report'', ''error_message''}"
  using returned_shapes [OF assms] by (auto simp: error_result_def success_result_def)

theorem result_shape_witness:
  "snd (get_weather (mock ''tokyo'' (ok_json one_place) timed_out) ''tokyo'')
     = Inr (error_result (request_failed_message ''Read timed out. (read timeout=5)''))
   \<and> map_of (error_result (request_failed_message ''Read timed out. (read timeout=5)''))
         ''status''
       = Some ''error''
   \<and> ''error_message''
       \<in> fst ` set (error_result (request_failed_message ''Read timed out. (read timeout=5)''))
   \<and> ''report''
       \<notin> fst ` set (error_result (request_failed_message ''Read timed out. (read timeout=5)''))"
proof -
  let ?rt = "mock ''tokyo'' (ok_json one_place) timed_out"
  let ?r = "error_result (request_failed_message ''Read timed out. (read timeout=5)'')"
  have run: "snd (get_weather ?rt ''tokyo'') = Inr ?r"
    by (simp add: get_weather_def mock_def ok_json_def one_place_def city_missing_def
        locate_def forecast_def try_body_def timed_out_def geo_url_def weather_url_def)
  from run result_shape [OF run] show ?thesis by (simp add: error_result_def)
qed

end
